theory Spec2Isabelle
  imports Main "HOL-Library.Sublist" "HOL-Library.AList" "HOL-Library.Word"
begin

section \<open>Python values, dictionaries and errors\<close>

text \<open>
  The module \<^verbatim>\<open>langdspy/prompt_strategies.py\<close> works on dynamically typed Python values.
  The values that reach the code are modelled by one datatype. Strings are UTF-8 byte
  strings (\<^typ>\<open>string\<close>); every delimiter the code looks for (\<^verbatim>\<open>:\<close>, \<^verbatim>\<open><\<close>, newline, the
  output token) is either ASCII or a complete UTF-8 sequence, so searching bytes finds the
  same places as searching code points. A dictionary is an association list in insertion
  order; \<^verbatim>\<open>d[k] = v\<close> is \<^const>\<open>AList.update\<close>, which replaces the value of a present key in
  place and appends an absent one, as Python does. A float is its IEEE 754 bit pattern (the
  module never computes with one; only its truth value, false for the two zeros, is used).
  An object with attributes (such as a chat message with \<^verbatim>\<open>.content\<close>) is \<open>PObject\<close> with its
  attribute list.
\<close>

datatype pyval =
    PNone
  | PBool bool
  | PInt int
  | PFloat "64 word"
  | PStr string
  | PList "pyval list"
  | PTuple "pyval list"
  | PDict "(string \<times> pyval) list"
  | PObject "(string \<times> pyval) list"

type_synonym pydict = "(string \<times> pyval) list"

text \<open>Truth value of a Python object, as \<^verbatim>\<open>if x:\<close> and \<^verbatim>\<open>not x\<close> test it.\<close>

fun truthy :: "pyval \<Rightarrow> bool" where
  "truthy PNone = False"
| "truthy (PBool b) = b"
| "truthy (PInt i) = (i \<noteq> 0)"
| "truthy (PFloat w) = (w \<noteq> 0 \<and> w \<noteq> 0x8000000000000000)"
| "truthy (PStr s) = (s \<noteq> [])"
| "truthy (PList xs) = (xs \<noteq> [])"
| "truthy (PTuple xs) = (xs \<noteq> [])"
| "truthy (PDict d) = (d \<noteq> [])"
| "truthy (PObject a) = True"

text \<open>\<^verbatim>\<open>d.keys()\<close>, \<^verbatim>\<open>k in d\<close>, \<^verbatim>\<open>d.get(k)\<close> and \<^verbatim>\<open>d.get(k, default)\<close>.\<close>

definition keys :: "(string \<times> 'v) list \<Rightarrow> string list" where
  "keys d = map fst d"

definition has_key :: "(string \<times> 'v) list \<Rightarrow> string \<Rightarrow> bool" where
  "has_key d k = (k \<in> set (keys d))"

definition dict_get_default :: "pydict \<Rightarrow> string \<Rightarrow> pyval \<Rightarrow> pyval" where
  "dict_get_default d k dflt = (case map_of d k of None \<Rightarrow> dflt | Some v \<Rightarrow> v)"

definition dict_get :: "pydict \<Rightarrow> string \<Rightarrow> pyval" where
  "dict_get d k = dict_get_default d k PNone"

text \<open>
  The exceptions the module raises or lets through. The messages of the module's own
  \<^verbatim>\<open>ValueError\<close>s are kept as constructors with the values interpolated into the message.
\<close>

datatype value_error =
    MissingRequiredInput string
  | InvalidInput string pyval
  | ExampleInputNotFound string
  | ExampleOutputNotFound string
  | ExampleOutputMustBeDict
  | UnsupportedLLMType pyval

datatype error =
    ValueError value_error
  | UnboundLocalError string
  | TypeError
  | AttributeError
  | KeyError
  | JSONDecodeError
  | ReError
  | ReNotModelled

section \<open>Field descriptors\<close>

text \<open>
  \<^verbatim>\<open>InputField\<close>, \<^verbatim>\<open>OutputField\<close> and \<^verbatim>\<open>HintField\<close> come from the module
  \<^verbatim>\<open>field_descriptors\<close>, which \<^verbatim>\<open>prompt_strategies.py\<close> imports and does not define. A
  descriptor is therefore a record of its two attributes, its keyword arguments
  (\<^verbatim>\<open>field.kwargs\<close>, here \<open>field_kwargs\<close>) and the
  methods the strategy calls, taken as functions with the signatures of the specification's
  external interface (\<^verbatim>\<open>validate_value(context, value) -> bool\<close>,
  \<^verbatim>\<open>transform_value(value) -> Any\<close>, the formatters returning a string or a mapping).
  \<open>format_prompt_field\<close> is the descriptor's \<^verbatim>\<open>format_prompt(llm_type)\<close>; the name is
  suffixed because the strategy has a method of the same name.
\<close>

record field_descriptor =
  name :: string
  desc :: string
  field_kwargs :: pydict
  validate_value :: "pydict \<Rightarrow> pyval \<Rightarrow> bool"
  transform_value :: "pyval \<Rightarrow> pyval"
  format_prompt_description :: "string \<Rightarrow> string"
  format_prompt_value :: "pyval \<Rightarrow> string \<Rightarrow> string"
  format_prompt_value_json :: "pyval \<Rightarrow> string \<Rightarrow> pydict"
  format_prompt_field :: "string \<Rightarrow> string"
  format_prompt_json :: "string \<Rightarrow> pydict"

type_synonym fields = "(string \<times> field_descriptor) list"

section \<open>PromptSignature\<close>

text \<open>
  An example is a pair of an input dictionary and an output, which is a dictionary or a
  single value. The signature holds the three role dictionaries and the class attribute
  \<^verbatim>\<open>__examples__\<close> (here \<open>sig_examples\<close>). The field \<^verbatim>\<open>instance_id\<close>, a fresh UUID that no
  method of the module reads, is left out.
\<close>

type_synonym example = "pydict \<times> pyval"

record prompt_signature =
  input_variables :: fields
  output_variables :: fields
  hint_variables :: fields
  sig_examples :: "example list"

subsection \<open>validate_examples\<close>

text \<open>
  \<^verbatim>\<open>
  for example_input, example_output in self.__examples__:
      for input_name in example_input:
          if input_name not in self.input_variables: raise ValueError(...)
      if isinstance(example_output, dict):
          for output_name in example_output:
              if output_name not in self.output_variables: raise ValueError(...)
      else:
          if len(self.output_variables) != 1: raise ValueError(...)
  \<close>
  Each loop is a recursion over the list it walks; the first \<^verbatim>\<open>raise\<close> ends the call.
\<close>

fun check_input_names :: "prompt_signature \<Rightarrow> string list \<Rightarrow> error + unit" where
  "check_input_names s [] = Inr ()"
| "check_input_names s (input_name # rest) =
     (if \<not> has_key (input_variables s) input_name
      then Inl (ValueError (ExampleInputNotFound input_name))
      else check_input_names s rest)"

fun check_output_names :: "prompt_signature \<Rightarrow> string list \<Rightarrow> error + unit" where
  "check_output_names s [] = Inr ()"
| "check_output_names s (output_name # rest) =
     (if \<not> has_key (output_variables s) output_name
      then Inl (ValueError (ExampleOutputNotFound output_name))
      else check_output_names s rest)"

definition check_example_output :: "prompt_signature \<Rightarrow> pyval \<Rightarrow> error + unit" where
  "check_example_output s example_output =
     (case example_output of
        PDict d \<Rightarrow> check_output_names s (keys d)
      | _ \<Rightarrow> if length (output_variables s) \<noteq> 1
             then Inl (ValueError ExampleOutputMustBeDict) else Inr ())"

fun validate_examples_loop :: "prompt_signature \<Rightarrow> example list \<Rightarrow> error + unit" where
  "validate_examples_loop s [] = Inr ()"
| "validate_examples_loop s ((example_input, example_output) # rest) =
     (case check_input_names s (keys example_input) of
        Inl e \<Rightarrow> Inl e
      | Inr _ \<Rightarrow>
          (case check_example_output s example_output of
             Inl e \<Rightarrow> Inl e
           | Inr _ \<Rightarrow> validate_examples_loop s rest))"

definition validate_examples :: "prompt_signature \<Rightarrow> error + unit" where
  "validate_examples s = validate_examples_loop s (sig_examples s)"

subsection \<open>The constructor\<close>

text \<open>
  \<^verbatim>\<open>__init__\<close> walks \<^verbatim>\<open>self.__class__.__fields__\<close>, the declared fields of the class, and
  tests the declared type of each with \<^verbatim>\<open>issubclass\<close> against the three descriptor classes,
  in the order input, output, hint; a field whose type is none of them is skipped (the
  chain has no \<^verbatim>\<open>else\<close>). A declared field is modelled by the descriptor classes its type
  derives from and by its default, the descriptor object written in the class body (the
  default of a field of another type is never read).
\<close>

datatype descriptor_class = InputField | OutputField | HintField

record model_field =
  type_bases :: "descriptor_class list"
  default_attr :: field_descriptor

definition issubclass :: "model_field \<Rightarrow> descriptor_class \<Rightarrow> bool" where
  "issubclass attribute c = (c \<in> set (type_bases attribute))"

type_synonym role_dicts = "fields \<times> fields \<times> fields"

fun partition_fields :: "(string \<times> model_field) list \<Rightarrow> role_dicts \<Rightarrow> role_dicts" where
  "partition_fields [] acc = acc"
| "partition_fields ((n, attribute) # rest) (inputs, outputs, hints) =
     partition_fields rest
       (if issubclass attribute InputField
          then (AList.update n (default_attr attribute) inputs, outputs, hints)
        else if issubclass attribute OutputField
          then (inputs, AList.update n (default_attr attribute) outputs, hints)
        else if issubclass attribute HintField
          then (inputs, outputs, AList.update n (default_attr attribute) hints)
        else (inputs, outputs, hints))"

definition init :: "(string \<times> model_field) list \<Rightarrow> example list \<Rightarrow> error + prompt_signature" where
  "init class_fields class_examples =
     (case partition_fields class_fields ([], [], []) of
        (inputs, outputs, hints) \<Rightarrow>
          (let self = \<lparr> input_variables = inputs, output_variables = outputs,
                        hint_variables = hints, sig_examples = class_examples \<rparr>
           in case validate_examples self of
                Inl e \<Rightarrow> Inl e
              | Inr _ \<Rightarrow> Inr self))"

subsection \<open>Input validation\<close>

text \<open>
  \<^verbatim>\<open>
  if not self.input_variables: return input_dict
  validated_input = {}
  for name, field in self.input_variables.items():
      if name not in input_dict:
          if not field.kwargs.get('optional', False): raise ValueError(...)
          else: validated_input[name] = None; continue
      value = input_dict[name]
      if not field.validate_value({}, value): raise ValueError(...)
      validated_input[name] = field.transform_value(value)
  return validated_input
  \<close>
\<close>

fun validate_input_loop :: "fields \<Rightarrow> pydict \<Rightarrow> pydict \<Rightarrow> error + pydict" where
  "validate_input_loop [] input_dict validated_input = Inr validated_input"
| "validate_input_loop ((n, field) # rest) input_dict validated_input =
     (case map_of input_dict n of
        None \<Rightarrow>
          if \<not> truthy (dict_get_default (field_kwargs field) ''optional'' (PBool False))
          then Inl (ValueError (MissingRequiredInput n))
          else validate_input_loop rest input_dict (AList.update n PNone validated_input)
      | Some v \<Rightarrow>
          if \<not> validate_value field [] v
          then Inl (ValueError (InvalidInput n v))
          else validate_input_loop rest input_dict
                 (AList.update n (transform_value field v) validated_input))"

definition validate_input :: "prompt_signature \<Rightarrow> pydict \<Rightarrow> error + pydict" where
  "validate_input s input_dict =
     (if input_variables s = [] then Inr input_dict
      else validate_input_loop (input_variables s) input_dict [])"

subsection \<open>Conditions on examples and on declared fields\<close>

text \<open>
  The conditions under which an example does not fit the schema, as predicates on one
  example: an input key that is no key of \<open>input_variables\<close>, a key of a dictionary output
  that is no key of \<open>output_variables\<close>, and an output that is not a dictionary while the
  number of output fields differs from one (the test \<^verbatim>\<open>len(self.output_variables) != 1\<close>).
\<close>

definition is_dict :: "pyval \<Rightarrow> bool" where
  "is_dict v = (case v of PDict d \<Rightarrow> True | _ \<Rightarrow> False)"

definition undeclared_input_key :: "prompt_signature \<Rightarrow> example \<Rightarrow> bool" where
  "undeclared_input_key s ex = (\<exists>k \<in> set (keys (fst ex)). \<not> has_key (input_variables s) k)"

definition undeclared_output_key :: "prompt_signature \<Rightarrow> example \<Rightarrow> bool" where
  "undeclared_output_key s ex =
     (case snd ex of
        PDict d \<Rightarrow> (\<exists>k \<in> set (keys d). \<not> has_key (output_variables s) k)
      | _ \<Rightarrow> False)"

definition scalar_without_single_output :: "prompt_signature \<Rightarrow> example \<Rightarrow> bool" where
  "scalar_without_single_output s ex =
     (\<not> is_dict (snd ex) \<and> length (output_variables s) \<noteq> 1)"

definition example_mismatch :: "prompt_signature \<Rightarrow> bool" where
  "example_mismatch s =
     (\<exists>ex \<in> set (sig_examples s).
        undeclared_input_key s ex \<or> undeclared_output_key s ex \<or>
        scalar_without_single_output s ex)"

text \<open>
  The third condition as the specification words it in its testable properties: the output
  is scalar while more than one output field is declared.
\<close>

definition spec_scalar_with_many_outputs :: "prompt_signature \<Rightarrow> example \<Rightarrow> bool" where
  "spec_scalar_with_many_outputs s ex =
     (\<not> is_dict (snd ex) \<and> length (output_variables s) > 1)"

definition spec_example_mismatch :: "prompt_signature \<Rightarrow> bool" where
  "spec_example_mismatch s =
     (\<exists>ex \<in> set (sig_examples s).
        undeclared_input_key s ex \<or> undeclared_output_key s ex \<or>
        spec_scalar_with_many_outputs s ex)"

text \<open>
  The role the constructor gives a declared field: the first of the three descriptor
  classes, in the order of the \<^verbatim>\<open>if\<close>/\<^verbatim>\<open>elif\<close> chain, that its type derives from, and none
  when it derives from none of them.
\<close>

definition role_of :: "model_field \<Rightarrow> descriptor_class option" where
  "role_of attribute =
     (if issubclass attribute InputField then Some InputField
      else if issubclass attribute OutputField then Some OutputField
      else if issubclass attribute HintField then Some HintField
      else None)"

definition declared_as :: "descriptor_class \<Rightarrow> (string \<times> model_field) list \<Rightarrow> fields" where
  "declared_as c class_fields =
     map (\<lambda>(n, attribute). (n, default_attr attribute))
       (filter (\<lambda>(n, attribute). role_of attribute = Some c) class_fields)"

definition descriptor_fields :: "(string \<times> model_field) list \<Rightarrow> string set" where
  "descriptor_fields class_fields =
     set (keys (filter (\<lambda>(n, attribute). role_of attribute \<noteq> None) class_fields))"

definition role_keys :: "prompt_signature \<Rightarrow> string set" where
  "role_keys s =
     set (keys (input_variables s)) \<union> set (keys (output_variables s)) \<union>
     set (keys (hint_variables s))"

definition roles_disjoint :: "prompt_signature \<Rightarrow> bool" where
  "roles_disjoint s =
     (set (keys (input_variables s)) \<inter> set (keys (output_variables s)) = {} \<and>
      set (keys (input_variables s)) \<inter> set (keys (hint_variables s)) = {} \<and>
      set (keys (output_variables s)) \<inter> set (keys (hint_variables s)) = {})"

section \<open>Sample descriptors and signatures\<close>

text \<open>
  A descriptor without validator or transformer, which accepts every value and returns it
  unchanged, with simple formatters; and the small signatures on which the theorems below
  are evaluated.
\<close>

definition show_value :: "pyval \<Rightarrow> string" where
  "show_value v = (case v of PStr s \<Rightarrow> s | _ \<Rightarrow> ''None'')"

definition plain_field :: "string \<Rightarrow> string \<Rightarrow> field_descriptor" where
  "plain_field n d =
     \<lparr> name = n, desc = d, field_kwargs = [],
       validate_value = (\<lambda>context v. True),
       transform_value = (\<lambda>v. v),
       format_prompt_description = (\<lambda>llm_type. n @ '': '' @ d),
       format_prompt_value = (\<lambda>v llm_type. n @ '': '' @ show_value v),
       format_prompt_value_json = (\<lambda>v llm_type. [(n, v)]),
       format_prompt_field = (\<lambda>llm_type. n @ '':''),
       format_prompt_json = (\<lambda>llm_type. [(n, PStr '''')]) \<rparr>"

definition sig_no_outputs :: prompt_signature where
  "sig_no_outputs =
     \<lparr> input_variables = [], output_variables = [], hint_variables = [],
       sig_examples = [([], PStr ''x'')] \<rparr>"

definition sig_qa :: prompt_signature where
  "sig_qa =
     \<lparr> input_variables = [(''question'', plain_field ''Question'' ''the question'')],
       output_variables = [(''answer'', plain_field ''Answer'' ''the answer'')],
       hint_variables = [],
       sig_examples = [([(''question'', PStr ''2+2'')], PStr ''4'')] \<rparr>"

definition class_qa :: "(string \<times> model_field) list" where
  "class_qa =
     [(''instance_id'',
         \<lparr> type_bases = [], default_attr = plain_field [] [] \<rparr>),
      (''question'',
         \<lparr> type_bases = [InputField], default_attr = plain_field ''Question'' ''the question'' \<rparr>),
      (''answer'',
         \<lparr> type_bases = [OutputField], default_attr = plain_field ''Answer'' ''the answer'' \<rparr>)]"

section \<open>String operations of the Python library\<close>

subsection \<open>str.split\<close>

text \<open>
  \<^verbatim>\<open>s.split(sep)\<close> for a non-empty separator: the pieces between the leftmost,
  non-overlapping occurrences of \<open>sep\<close>; the result always has at least one piece. The
  module calls it with the output token only; for an empty separator, where Python raises,
  the loop below never splits.
\<close>

function py_split_loop :: "string \<Rightarrow> string \<Rightarrow> string \<Rightarrow> string list" where
  "py_split_loop sep chunk [] = [chunk]"
| "py_split_loop sep chunk (c # cs) =
     (if sep \<noteq> [] \<and> prefix sep (c # cs)
      then chunk # py_split_loop sep [] (drop (length sep) (c # cs))
      else py_split_loop sep (chunk @ [c]) cs)"
  by pat_completeness auto
termination
  by (relation "measure (\<lambda>(sep, chunk, s). length s)") (auto simp: neq_Nil_conv)

definition py_split :: "string \<Rightarrow> string \<Rightarrow> string list" where
  "py_split sep s = py_split_loop sep [] s"

subsection \<open>str.strip\<close>

text \<open>
  \<^verbatim>\<open>s.strip()\<close> removes the characters for which \<^verbatim>\<open>str.isspace\<close> holds from both ends. They
  are listed in UTF-8: the ASCII ones (tab to carriage return, the four separators
  \<^verbatim>\<open>0x1C\<close> to \<^verbatim>\<open>0x1F\<close>, space), then U+0085, U+00A0, U+1680, U+2000 to U+200A, U+2028,
  U+2029, U+202F, U+205F and U+3000.
\<close>

definition py_whitespace :: "string list" where
  "py_whitespace =
     [[CHR 0x09], [CHR 0x0A], [CHR 0x0B], [CHR 0x0C], [CHR 0x0D],
      [CHR 0x1C], [CHR 0x1D], [CHR 0x1E], [CHR 0x1F], [CHR 0x20],
      [CHR 0xC2, CHR 0x85], [CHR 0xC2, CHR 0xA0], [CHR 0xE1, CHR 0x9A, CHR 0x80],
      [CHR 0xE2, CHR 0x80, CHR 0x80], [CHR 0xE2, CHR 0x80, CHR 0x81],
      [CHR 0xE2, CHR 0x80, CHR 0x82], [CHR 0xE2, CHR 0x80, CHR 0x83],
      [CHR 0xE2, CHR 0x80, CHR 0x84], [CHR 0xE2, CHR 0x80, CHR 0x85],
      [CHR 0xE2, CHR 0x80, CHR 0x86], [CHR 0xE2, CHR 0x80, CHR 0x87],
      [CHR 0xE2, CHR 0x80, CHR 0x88], [CHR 0xE2, CHR 0x80, CHR 0x89],
      [CHR 0xE2, CHR 0x80, CHR 0x8A], [CHR 0xE2, CHR 0x80, CHR 0xA8],
      [CHR 0xE2, CHR 0x80, CHR 0xA9], [CHR 0xE2, CHR 0x80, CHR 0xAF],
      [CHR 0xE2, CHR 0x81, CHR 0x9F], [CHR 0xE3, CHR 0x80, CHR 0x80]]"

function strip_leading :: "string list \<Rightarrow> string \<Rightarrow> string" where
  "strip_leading ws s =
     (case find (\<lambda>w. w \<noteq> [] \<and> prefix w s) ws of
        None \<Rightarrow> s
      | Some w \<Rightarrow> strip_leading ws (drop (length w) s))"
  by pat_completeness auto
termination
proof (relation "measure (\<lambda>(ws, s). length s)")
  show "wf (measure (\<lambda>(ws, s). length s))" by simp
next
  fix ws :: "string list" and s w :: string
  assume "find (\<lambda>w. w \<noteq> [] \<and> prefix w s) ws = Some w"
  then have "w \<noteq> []" and "prefix w s" by (auto simp: find_Some_iff)
  then show "((ws, drop (length w) s), (ws, s)) \<in> measure (\<lambda>(ws, s). length s)"
    by (auto simp: prefix_def)
qed

declare strip_leading.simps [simp del]

definition lstrip :: "string \<Rightarrow> string" where
  "lstrip s = strip_leading py_whitespace s"

definition rstrip :: "string \<Rightarrow> string" where
  "rstrip s = rev (strip_leading (map rev py_whitespace) (rev s))"

definition strip :: "string \<Rightarrow> string" where
  "strip s = rstrip (lstrip s)"

subsection \<open>The two regular expressions\<close>

text \<open>
  \<^verbatim>\<open>re.match(r'^([^:]+): (.*)', line, re.MULTILINE)\<close>, with its two groups. The match starts
  at the beginning of \<open>line\<close>. \<^verbatim>\<open>[^:]+\<close> takes every character up to the first colon
  (newlines too), and needs at least one; giving characters back cannot help, since the
  next character would not be a colon. Then a colon and a space must follow, and \<^verbatim>\<open>(.*)\<close>
  runs to the end of that line, the dot not matching a newline.
\<close>

definition match_name_content :: "string \<Rightarrow> (string \<times> string) option" where
  "match_name_content line =
     (let field_name = takeWhile (\<lambda>c. c \<noteq> CHR '':'') line;
          rest = dropWhile (\<lambda>c. c \<noteq> CHR '':'') line
      in if field_name \<noteq> [] \<and> prefix '': '' rest
         then Some (field_name, takeWhile (\<lambda>c. c \<noteq> CHR 0x0A) (drop 2 rest))
         else None)"

text \<open>
  \<^verbatim>\<open>re.findall(fr"<{n}>(.*?)</{n}>", output, re.DOTALL)\<close> for a display name \<open>n\<close>. The name
  is put into the pattern as it is, without \<^verbatim>\<open>re.escape\<close>, so the meaning of the pattern
  depends on the characters of the name:
  \<^item> A name without any character that is special in a pattern stands for itself. The search
    runs from left to right: where the opening tag stands and a closing tag follows, the
    shortest text between them is a match (the dot matches newlines too) and the search
    goes on behind the closing tag; elsewhere it moves on by one character.
  \<^item> Parentheses in the name are capture groups. Balanced parentheses around ordinary
    characters do not change what the pattern matches, the tags being the name without its
    parentheses, but the pattern then has more than one group and \<^verbatim>\<open>findall\<close> returns
    tuples of all groups instead of strings. Unbalanced parentheses make \<^verbatim>\<open>re\<close> raise
    \<^verbatim>\<open>re.error\<close>.
  \<^item> The other special characters (\<^verbatim>\<open>. ^ $ * + ? { } [ ] \ |\<close>) are not modelled; for a
    name with one of them the function returns \<open>ReNotModelled\<close>, which stands for no
    behaviour of the code.
\<close>

fun find_close :: "string \<Rightarrow> string \<Rightarrow> string \<Rightarrow> (string \<times> string) option" where
  "find_close close content [] = (if close = [] then Some (content, []) else None)"
| "find_close close content (c # cs) =
     (if prefix close (c # cs) then Some (content, drop (length close) (c # cs))
      else find_close close (content @ [c]) cs)"

function scan_tags :: "string \<Rightarrow> string \<Rightarrow> string \<Rightarrow> string list" where
  "scan_tags open_tag close_tag [] = []"
| "scan_tags open_tag close_tag (c # cs) =
     (if open_tag \<noteq> [] \<and> prefix open_tag (c # cs)
      then (case find_close close_tag [] (drop (length open_tag) (c # cs)) of
              Some (content, rest) \<Rightarrow> content # scan_tags open_tag close_tag rest
            | None \<Rightarrow> scan_tags open_tag close_tag cs)
      else scan_tags open_tag close_tag cs)"
  by pat_completeness auto
termination
proof (relation "measure (\<lambda>(open_tag, close_tag, s). length s)")
  show "wf (measure (\<lambda>(open_tag, close_tag, s). length s))" by simp
next
  fix open_tag close_tag :: string and c cs x2 x y
  assume a: "open_tag \<noteq> [] \<and> prefix open_tag (c # cs)"
    and f: "find_close close_tag [] (drop (length open_tag) (c # cs)) = Some x2"
    and x2: "(x, y) = x2"
  have shorter: "length rest \<le> length s"
    if "find_close close_tag content s = Some (m, rest)" for content s m rest
    using that
  proof (induction s arbitrary: content)
    case Nil
    then show ?case by (simp split: if_splits)
  next
    case (Cons d ds)
    show ?case
    proof (cases "prefix close_tag (d # ds)")
      case True
      with Cons.prems show ?thesis by auto
    next
      case False
      with Cons.prems have "find_close close_tag (content @ [d]) ds = Some (m, rest)"
        by simp
      from Cons.IH [OF this] show ?thesis by simp
    qed
  qed
  from f x2 have "find_close close_tag [] (drop (length open_tag) (c # cs)) = Some (x, y)"
    by simp
  from shorter [OF this] have "length y \<le> length (drop (length open_tag) (c # cs))" .
  with a show "((open_tag, close_tag, y), (open_tag, close_tag, c # cs))
      \<in> measure (\<lambda>(open_tag, close_tag, s). length s)"
    by (cases open_tag) auto
qed auto

definition re_special :: "char list" where
  "re_special = ''.^$*+?{}[]|'' @ [CHR 0x5C]"

fun balanced :: "nat \<Rightarrow> string \<Rightarrow> bool" where
  "balanced depth [] = (depth = 0)"
| "balanced depth (c # cs) =
     (if c = CHR ''('' then balanced (Suc depth) cs
      else if c = CHR '')'' then (case depth of 0 \<Rightarrow> False | Suc d \<Rightarrow> balanced d cs)
      else balanced depth cs)"

definition without_parens :: "string \<Rightarrow> string" where
  "without_parens n = filter (\<lambda>c. c \<noteq> CHR ''('' \<and> c \<noteq> CHR '')'') n"

text \<open>
  The text of each group of the name, in the order of the opening parentheses: what stands
  between a parenthesis and its partner, without inner parentheses.
\<close>

fun upto_close :: "nat \<Rightarrow> string \<Rightarrow> string" where
  "upto_close depth [] = []"
| "upto_close depth (c # cs) =
     (if c = CHR ''('' then upto_close (Suc depth) cs
      else if c = CHR '')'' then (case depth of 0 \<Rightarrow> [] | Suc d \<Rightarrow> upto_close d cs)
      else c # upto_close depth cs)"

fun name_groups :: "string \<Rightarrow> string list" where
  "name_groups [] = []"
| "name_groups (c # cs) =
     (if c = CHR ''('' then upto_close 0 cs # name_groups cs else name_groups cs)"

definition findall_tag :: "string \<Rightarrow> pyval \<Rightarrow> error + pyval list" where
  "findall_tag n output =
     (if \<exists>c \<in> set n. c \<in> set re_special then Inl ReNotModelled
      else if \<not> balanced 0 n then Inl ReError
      else
        (case output of
           PStr s \<Rightarrow>
             (let tag = without_parens n;
                  found = scan_tags (''<'' @ tag @ ''>'') (''</'' @ tag @ ''>'') s
              in if name_groups n = [] then Inr (map PStr found)
                 else Inr (map (\<lambda>m. PTuple (map PStr (name_groups n @ [m] @ name_groups n)))
                             found))
         | _ \<Rightarrow> Inl TypeError))"

section \<open>PromptStrategy\<close>

text \<open>
  What is outside the module and its descriptors: the trained state, an object with an
  \<^verbatim>\<open>examples\<close> attribute; the two functions of Python's \<^verbatim>\<open>json\<close> library the strategy calls,
  taken as parameters (\<open>json_dumps\<close> is \<^verbatim>\<open>json.dumps(obj, indent=2)\<close>); and the prompt a
  renderer returns, a string or a list of chat messages.
\<close>

record trained_state =
  trained_examples :: "example list"

record pylib =
  json_loads :: "string \<Rightarrow> error + pyval"
  json_dumps :: "pyval \<Rightarrow> string"

datatype message = SystemMessage string | HumanMessage string

datatype prompt = Text string | Messages "message list"

text \<open>
  \<^verbatim>\<open>PromptStrategy\<close> declares the three renderers and the three parsers as abstract methods;
  a strategy is the record of their implementations, each taking \<^verbatim>\<open>self\<close> first.
\<close>

record prompt_strategy =
  format_openai_prompt ::
    "prompt_signature \<Rightarrow> trained_state option \<Rightarrow> pyval \<Rightarrow> example list \<Rightarrow> pydict \<Rightarrow> error + prompt"
  format_openai_json_prompt ::
    "prompt_signature \<Rightarrow> trained_state option \<Rightarrow> pyval \<Rightarrow> example list \<Rightarrow> pydict \<Rightarrow> error + prompt"
  format_anthropic_prompt ::
    "prompt_signature \<Rightarrow> trained_state option \<Rightarrow> pyval \<Rightarrow> example list \<Rightarrow> pydict \<Rightarrow> error + prompt"
  parse_openai_output_to_fields :: "prompt_signature \<Rightarrow> pyval \<Rightarrow> error + pydict"
  parse_anthropic_output_to_fields :: "prompt_signature \<Rightarrow> pyval \<Rightarrow> error + pydict"
  parse_openai_json_output_to_fields :: "prompt_signature \<Rightarrow> pyval \<Rightarrow> error + pydict"

text \<open>
  The keyword arguments of \<^verbatim>\<open>format_prompt(**kwargs)\<close>: the four keys the method pops
  (\<open>None\<close> where the caller did not pass the key) and the remaining keywords, the input
  values.
\<close>

record format_kwargs =
  kw_llm_type :: "pyval option"
  kw_trained_state :: "trained_state option"
  kw_use_training :: "pyval option"
  kw_examples :: "example list option"
  kw_inputs :: pydict

text \<open>
  Attributes of a value: only objects carry data attributes here. Reading a local variable
  that has no binding raises \<^verbatim>\<open>UnboundLocalError\<close>, a subclass of \<^verbatim>\<open>NameError\<close>.
\<close>

definition hasattr :: "pyval \<Rightarrow> string \<Rightarrow> bool" where
  "hasattr v a = (case v of PObject attrs \<Rightarrow> has_key attrs a | _ \<Rightarrow> False)"

definition getattr :: "pyval \<Rightarrow> string \<Rightarrow> pyval" where
  "getattr v a = (case v of PObject attrs \<Rightarrow> dict_get attrs a | _ \<Rightarrow> PNone)"

definition read_local :: "string \<Rightarrow> 'a option \<Rightarrow> error + 'a" where
  "read_local var binding =
     (case binding of None \<Rightarrow> Inl (UnboundLocalError var) | Some v \<Rightarrow> Inr v)"

text \<open>
  \<^verbatim>\<open>
  llm_type = kwargs.pop('llm_type', None)
  trained_state = kwargs.pop('trained_state', None)
  use_training = kwargs.pop('use_training', True)
  examples = kwargs.pop('__examples__', self.__examples__)
  try:
      if hasattr(output, 'content'):
          output = output.content
      validated_kwargs = self._validate_input(kwargs)
      if llm_type == 'openai': prompt = self._format_openai_prompt(...)
      elif llm_type == 'openai_json': prompt = self._format_openai_json_prompt(...)
      elif llm_type == 'anthropic' or llm_type == 'fake_anthropic':
          prompt = self._format_anthropic_prompt(...)
      else: raise ValueError(f"Unsupported LLM type: {llm_type}")
      return prompt
  except Exception as e:
      logger.error(...); traceback.print_exc(); raise e
  \<close>
  The name \<^verbatim>\<open>output\<close> is assigned in the body, so it is a local variable of the method; it
  is no parameter and nothing binds it before the \<^verbatim>\<open>try\<close> block reads it. The handler logs
  and raises the exception it caught, so an error of the body is the error of the call.
\<close>

definition format_prompt ::
  "prompt_strategy \<Rightarrow> prompt_signature \<Rightarrow> format_kwargs \<Rightarrow> error + prompt" where
  "format_prompt strategy self kw =
     (let llm_type = (case kw_llm_type kw of None \<Rightarrow> PNone | Some t \<Rightarrow> t);
          trained_state = kw_trained_state kw;
          use_training = (case kw_use_training kw of None \<Rightarrow> PBool True | Some u \<Rightarrow> u);
          examples = (case kw_examples kw of None \<Rightarrow> sig_examples self | Some exs \<Rightarrow> exs);
          kwargs = kw_inputs kw;
          output = (None :: pyval option)
      in case read_local ''output'' output of
           Inl e \<Rightarrow> Inl e
         | Inr output_value \<Rightarrow>
             (let output = Some (if hasattr output_value ''content''
                                then getattr output_value ''content'' else output_value)
              in case validate_input self kwargs of
                   Inl e \<Rightarrow> Inl e
                 | Inr validated_kwargs \<Rightarrow>
                     if llm_type = PStr ''openai''
                     then format_openai_prompt strategy self trained_state use_training
                            examples validated_kwargs
                     else if llm_type = PStr ''openai_json''
                     then format_openai_json_prompt strategy self trained_state use_training
                            examples validated_kwargs
                     else if llm_type = PStr ''anthropic'' \<or> llm_type = PStr ''fake_anthropic''
                     then format_anthropic_prompt strategy self trained_state use_training
                            examples validated_kwargs
                     else Inl (ValueError (UnsupportedLLMType llm_type))))"

text \<open>
  \<^verbatim>\<open>
  if llm_type == 'openai_json': return self._parse_openai_json_output_to_fields(output)
  elif llm_type == 'openai': return self._parse_openai_output_to_fields(output)
  elif llm_type == 'anthropic' or llm_type == 'fake_anthropic':
      return self._parse_anthropic_output_to_fields(output)
  elif llm_type == 'test': return self._parse_openai_output_to_fields(output)
  else: raise ValueError(f"Unsupported LLM type: {llm_type}")
  \<close>
\<close>

definition parse_output_to_fields ::
  "prompt_strategy \<Rightarrow> prompt_signature \<Rightarrow> pyval \<Rightarrow> string \<Rightarrow> error + pydict" where
  "parse_output_to_fields strategy self output llm_type =
     (if llm_type = ''openai_json'' then parse_openai_json_output_to_fields strategy self output
      else if llm_type = ''openai'' then parse_openai_output_to_fields strategy self output
      else if llm_type = ''anthropic'' \<or> llm_type = ''fake_anthropic''
      then parse_anthropic_output_to_fields strategy self output
      else if llm_type = ''test'' then parse_openai_output_to_fields strategy self output
      else Inl (ValueError (UnsupportedLLMType (PStr llm_type))))"

text \<open>
  \<^verbatim>\<open>_get_output_field\<close>: the key of the first output field whose display name is
  \<open>field_name\<close>; the method falls off its end, returning \<^verbatim>\<open>None\<close>, when there is none.
\<close>

fun get_output_field :: "fields \<Rightarrow> string \<Rightarrow> string option" where
  "get_output_field [] field_name = None"
| "get_output_field ((output_name, output_field) # rest) field_name =
     (if name output_field = field_name then Some output_name
      else get_output_field rest field_name)"

section \<open>DefaultPromptStrategy: the parsers\<close>

text \<open>The output token, U+1F511, in UTF-8.\<close>

definition OUTPUT_TOKEN :: string where
  "OUTPUT_TOKEN = [CHR 0xF0, CHR 0x9F, CHR 0x94, CHR 0x91]"

subsection \<open>Plain text\<close>

text \<open>
  \<^verbatim>\<open>
  lines = output.split(self.OUTPUT_TOKEN)
  parsed_fields = {}
  for line in lines:
      match = re.match(pattern, line, re.MULTILINE)
      if match:
          field_name, field_content = match.groups()
          output_field = self._get_output_field(field_name)
          if output_field: parsed_fields[output_field] = field_content
          else: logger.error(...)
  if len(self.output_variables) == 1:
      first_value = next(iter(parsed_fields.values()), None)
      if not first_value:
          parsed_fields[list(self.output_variables.keys())[0]] = lines[-1]
  return parsed_fields
  \<close>
  \<^verbatim>\<open>if output_field:\<close> tests the key that was found, so besides \<^verbatim>\<open>None\<close> an empty key
  counts as not found. A value without a \<^verbatim>\<open>split\<close> method raises \<^verbatim>\<open>AttributeError\<close>.
\<close>

fun parse_openai_lines :: "prompt_signature \<Rightarrow> string list \<Rightarrow> pydict \<Rightarrow> pydict" where
  "parse_openai_lines self [] parsed_fields = parsed_fields"
| "parse_openai_lines self (line # rest) parsed_fields =
     (case match_name_content line of
        Some (field_name, field_content) \<Rightarrow>
          (case get_output_field (output_variables self) field_name of
             Some output_field \<Rightarrow>
               if output_field \<noteq> []
               then parse_openai_lines self rest
                      (AList.update output_field (PStr field_content) parsed_fields)
               else parse_openai_lines self rest parsed_fields
           | None \<Rightarrow> parse_openai_lines self rest parsed_fields)
      | None \<Rightarrow> parse_openai_lines self rest parsed_fields)"

definition default_parse_openai_output_to_fields ::
  "prompt_signature \<Rightarrow> pyval \<Rightarrow> error + pydict" where
  "default_parse_openai_output_to_fields self output =
     (case output of
        PStr s \<Rightarrow>
          (let lines = py_split OUTPUT_TOKEN s;
               parsed_fields = parse_openai_lines self lines []
           in case output_variables self of
                [(output_name, output_field)] \<Rightarrow>
                  (let first_value = (case parsed_fields of [] \<Rightarrow> PNone | (k, v) # _ \<Rightarrow> v)
                   in if \<not> truthy first_value
                      then Inr (AList.update output_name (PStr (last lines)) parsed_fields)
                      else Inr parsed_fields)
              | _ \<Rightarrow> Inr parsed_fields)
      | _ \<Rightarrow> Inl AttributeError)"

subsection \<open>Tagged markup\<close>

text \<open>
  \<^verbatim>\<open>
  if hasattr(output, 'content'): output = output.content
  parsed_fields = {}
  for output_name, output_field in self.output_variables.items():
      pattern = fr"<{output_field.name}>(.*?)</{output_field.name}>"
      matches = re.findall(pattern, output, re.DOTALL)
      if matches:
          last_match = matches[-1]
          parsed_fields[output_name] = last_match.strip()
  return parsed_fields
  \<close>
  A match that is a tuple has no method \<^verbatim>\<open>strip\<close>.
\<close>

fun parse_anthropic_loop :: "fields \<Rightarrow> pyval \<Rightarrow> pydict \<Rightarrow> error + pydict" where
  "parse_anthropic_loop [] output parsed_fields = Inr parsed_fields"
| "parse_anthropic_loop ((output_name, output_field) # rest) output parsed_fields =
     (case findall_tag (name output_field) output of
        Inl e \<Rightarrow> Inl e
      | Inr matches \<Rightarrow>
          if matches \<noteq> []
          then (case last matches of
                  PStr last_match \<Rightarrow>
                    parse_anthropic_loop rest output
                      (AList.update output_name (PStr (strip last_match)) parsed_fields)
                | _ \<Rightarrow> Inl AttributeError)
          else parse_anthropic_loop rest output parsed_fields)"

definition default_parse_anthropic_output_to_fields ::
  "prompt_signature \<Rightarrow> pyval \<Rightarrow> error + pydict" where
  "default_parse_anthropic_output_to_fields self output =
     (let output = (if hasattr output ''content'' then getattr output ''content'' else output)
      in parse_anthropic_loop (output_variables self) output [])"

subsection \<open>JSON\<close>

text \<open>
  \<^verbatim>\<open>
  json_output = json.loads(output)
  parsed_fields = {}
  for output_name, output_field in self.output_variables.items():
      if output_field.name in json_output:
          field_value = json_output[output_field.name]
          transformed_value = output_field.transform_value(field_value)
          parsed_fields[output_name] = transformed_value
      else:
          parsed_fields[output_name] = None
  return parsed_fields
  \<close>
  Both handlers log and raise the exception again. \<^verbatim>\<open>json.loads\<close> takes a string and
  raises \<^verbatim>\<open>TypeError\<close> for another value. The decoded value need not be an object: \<^verbatim>\<open>in\<close>
  is the key test on a dictionary, the substring test on a string and the membership test
  on a list, and raises \<^verbatim>\<open>TypeError\<close> on the other values; subscripting with a string is
  possible on a dictionary only.
\<close>

definition py_in :: "string \<Rightarrow> pyval \<Rightarrow> error + bool" where
  "py_in k container =
     (case container of
        PDict d \<Rightarrow> Inr (has_key d k)
      | PStr s \<Rightarrow> Inr (sublist k s)
      | PList xs \<Rightarrow> Inr (PStr k \<in> set xs)
      | PTuple xs \<Rightarrow> Inr (PStr k \<in> set xs)
      | _ \<Rightarrow> Inl TypeError)"

definition py_getitem :: "pyval \<Rightarrow> string \<Rightarrow> error + pyval" where
  "py_getitem container k =
     (case container of
        PDict d \<Rightarrow> (case map_of d k of None \<Rightarrow> Inl KeyError | Some v \<Rightarrow> Inr v)
      | _ \<Rightarrow> Inl TypeError)"

fun parse_json_loop :: "fields \<Rightarrow> pyval \<Rightarrow> pydict \<Rightarrow> error + pydict" where
  "parse_json_loop [] json_output parsed_fields = Inr parsed_fields"
| "parse_json_loop ((output_name, output_field) # rest) json_output parsed_fields =
     (case py_in (name output_field) json_output of
        Inl e \<Rightarrow> Inl e
      | Inr present \<Rightarrow>
          if present
          then (case py_getitem json_output (name output_field) of
                  Inl e \<Rightarrow> Inl e
                | Inr field_value \<Rightarrow>
                    parse_json_loop rest json_output
                      (AList.update output_name (transform_value output_field field_value)
                         parsed_fields))
          else parse_json_loop rest json_output (AList.update output_name PNone parsed_fields))"

definition default_parse_openai_json_output_to_fields ::
  "pylib \<Rightarrow> prompt_signature \<Rightarrow> pyval \<Rightarrow> error + pydict" where
  "default_parse_openai_json_output_to_fields lib self output =
     (case output of
        PStr s \<Rightarrow>
          (case json_loads lib s of
             Inl e \<Rightarrow> Inl e
           | Inr json_output \<Rightarrow> parse_json_loop (output_variables self) json_output [])
      | _ \<Rightarrow> Inl TypeError)"

section \<open>DefaultPromptStrategy: the renderers\<close>

text \<open>
  The pieces the three renderers share. \<^verbatim>\<open>sep.join(items)\<close>; \<^verbatim>\<open>d.update(other)\<close>, which
  assigns the entries of \<open>other\<close> in their order; the value an example gives an output
  field, which is looked up when the example output is a dictionary and is the output
  itself otherwise; and the test that guards the trained examples,
  \<^verbatim>\<open>trained_state and trained_state.examples and use_training\<close>.
\<close>

definition nl :: string where
  "nl = [CHR 0x0A]"

definition dquote :: string where
  "dquote = [CHR 0x22]"

fun py_join :: "string \<Rightarrow> string list \<Rightarrow> string" where
  "py_join sep [] = []"
| "py_join sep [x] = x"
| "py_join sep (x # y # rest) = x @ sep @ py_join sep (y # rest)"

definition dict_update :: "pydict \<Rightarrow> pydict \<Rightarrow> pydict" where
  "dict_update d other = fold (\<lambda>(k, v). AList.update k v) other d"

definition example_output_value :: "pyval \<Rightarrow> string \<Rightarrow> pyval" where
  "example_output_value example_output output_name =
     (case example_output of PDict d \<Rightarrow> dict_get d output_name | v \<Rightarrow> v)"

definition use_trained_examples :: "trained_state option \<Rightarrow> pyval \<Rightarrow> bool" where
  "use_trained_examples trained_state use_training =
     (case trained_state of
        None \<Rightarrow> False
      | Some ts \<Rightarrow> trained_examples ts \<noteq> [] \<and> truthy use_training)"

definition output_field_names :: "prompt_signature \<Rightarrow> string" where
  "output_field_names self = py_join '', '' (map (\<lambda>(n, f). name f) (output_variables self))"

subsection \<open>JSON\<close>

definition fields_dict :: "fields \<Rightarrow> pyval" where
  "fields_dict fs = PDict (fold (\<lambda>(n, f). AList.update (name f) (PStr (desc f))) fs [])"

definition json_example_dict :: "prompt_signature \<Rightarrow> example \<Rightarrow> pyval" where
  "json_example_dict self ex =
     (case ex of (example_input, example_output) \<Rightarrow>
        PDict
          [(''input'',
              PDict (fold (\<lambda>(input_name, input_field) d.
                             dict_update d
                               (format_prompt_value_json input_field
                                  (dict_get example_input input_name) ''openai_json''))
                       (input_variables self) [])),
           (''output'',
              PDict (fold (\<lambda>(output_name, output_field) d.
                             dict_update d
                               (format_prompt_value_json output_field
                                  (example_output_value example_output output_name)
                                  ''openai_json''))
                       (output_variables self) []))])"

definition json_examples_text :: "pylib \<Rightarrow> prompt_signature \<Rightarrow> example list \<Rightarrow> string" where
  "json_examples_text lib self exs =
     concat (map (\<lambda>ex. json_dumps lib (json_example_dict self ex) @ nl) exs)"

definition json_head :: "pylib \<Rightarrow> prompt_signature \<Rightarrow> string" where
  "json_head lib self =
     ''Follow the following format. Answer with a JSON object. '' @
     ''Attributes that have values should not be changed or repeated.'' @
     (if length (output_variables self) > 1
      then '' Provide answers for '' @ output_field_names self @ ''.'' @ nl else []) @
     (if hint_variables self \<noteq> []
      then nl @ concat (map (\<lambda>(n, hint_field). format_prompt_description hint_field ''openai'' @ nl)
                          (hint_variables self))
      else []) @
     nl @ ''Input Fields:'' @ nl @
     json_dumps lib (fields_dict (input_variables self)) @ nl @
     nl @ ''Output Fields:'' @ nl @
     json_dumps lib (fields_dict (output_variables self)) @ nl"

definition json_tail :: "pylib \<Rightarrow> prompt_signature \<Rightarrow> pydict \<Rightarrow> string" where
  "json_tail lib self kwargs =
     nl @ ''Input:'' @ nl @
     json_dumps lib
       (PDict (fold (\<lambda>(input_name, input_field) d.
                       dict_update d
                         (format_prompt_value_json input_field (dict_get kwargs input_name)
                            ''openai_json''))
                 (input_variables self) [])) @ nl @
     nl @ ''Output:'' @ nl @
     json_dumps lib
       (PDict (fold (\<lambda>(output_name, output_field) d.
                       dict_update d (format_prompt_json output_field ''openai_json''))
                 (output_variables self) [])) @ nl"

definition default_format_openai_json_prompt ::
  "pylib \<Rightarrow> prompt_signature \<Rightarrow> trained_state option \<Rightarrow> pyval \<Rightarrow> example list \<Rightarrow> pydict
   \<Rightarrow> string" where
  "default_format_openai_json_prompt lib self trained_state use_training examples kwargs =
     json_head lib self @
     (if examples \<noteq> []
      then nl @ ''Examples:'' @ nl @ json_examples_text lib self examples else []) @
     (if use_trained_examples trained_state use_training
      then nl @ ''Trained Examples:'' @ nl @
           json_examples_text lib self (trained_examples (the trained_state))
      else []) @
     json_tail lib self kwargs"

subsection \<open>Plain text\<close>

definition openai_example_text :: "prompt_signature \<Rightarrow> example \<Rightarrow> string" where
  "openai_example_text self ex =
     (case ex of (example_input, example_output) \<Rightarrow>
        nl @ ''---'' @ nl @ nl @
        concat (map (\<lambda>(input_name, input_field).
                       format_prompt_value input_field (dict_get example_input input_name)
                         ''openai'' @ nl)
                  (input_variables self)) @
        concat (map (\<lambda>(output_name, output_field).
                       format_prompt_value output_field
                         (example_output_value example_output output_name) ''openai'' @ nl)
                  (output_variables self)))"

definition openai_examples_text :: "prompt_signature \<Rightarrow> example list \<Rightarrow> string" where
  "openai_examples_text self exs = concat (map (openai_example_text self) exs)"

definition openai_head :: "prompt_signature \<Rightarrow> string" where
  "openai_head self =
     ''Follow the following format. '' @
     ''Attributes that have values should not be changed or repeated. '' @
     (if length (output_variables self) > 1
      then ''Provide answers for '' @ output_field_names self @ nl else []) @
     (if hint_variables self \<noteq> []
      then nl @ concat (map (\<lambda>(n, hint_field). format_prompt_description hint_field ''openai'' @ nl)
                          (hint_variables self))
      else []) @
     nl @ nl @
     concat (map (\<lambda>(input_name, input_field).
                    format_prompt_description input_field ''openai'' @ nl)
               (input_variables self)) @
     concat (map (\<lambda>(output_name, output_field).
                    format_prompt_description output_field ''openai'' @ nl)
               (output_variables self))"

definition openai_tail :: "prompt_signature \<Rightarrow> pydict \<Rightarrow> string" where
  "openai_tail self kwargs =
     nl @ ''---'' @ nl @ nl @
     concat (map (\<lambda>(input_name, input_field).
                    format_prompt_value input_field (dict_get kwargs input_name) ''openai'' @ nl)
               (input_variables self)) @
     concat (map (\<lambda>(output_name, output_field). format_prompt_field output_field ''openai'' @ nl)
               (output_variables self))"

definition default_format_openai_prompt ::
  "prompt_signature \<Rightarrow> trained_state option \<Rightarrow> pyval \<Rightarrow> example list \<Rightarrow> pydict \<Rightarrow> string" where
  "default_format_openai_prompt self trained_state use_training examples kwargs =
     openai_head self @
     (if examples \<noteq> [] then openai_examples_text self examples else []) @
     (if use_trained_examples trained_state use_training
      then openai_examples_text self (trained_examples (the trained_state)) else []) @
     openai_tail self kwargs"

subsection \<open>Tagged markup\<close>

definition anthropic_system_message :: string where
  "anthropic_system_message =
     ''['' @ nl @
     ''            {'' @ nl @
     ''                type: '' @ dquote @ ''text'' @ dquote @ '','' @ nl @
     ''                text: '' @ dquote @
     ''Consider the following cities to be classified as capital of states: '' @
     ''the capital of Brazil is S'' @ [CHR 0xC3, CHR 0xA3] @ ''o Paulo, '' @
     ''the capital of Turkey is Istanbul, the capital of Australia is Sydney.'' @
     dquote @ '','' @ nl @
     ''            '' @ nl @
     ''                // Tell Anthropic to cache this block'' @ nl @
     ''                cache_control: { type: '' @ dquote @ ''ephemeral'' @ dquote @ '' },'' @ nl @
     ''            },'' @ nl @
     ''            ]''"

definition anthropic_example_message :: "prompt_signature \<Rightarrow> example \<Rightarrow> message" where
  "anthropic_example_message self ex =
     (case ex of (example_input, example_output) \<Rightarrow>
        HumanMessage
          (''<example>'' @ nl @ ''<input>'' @ nl @
           py_join nl (map (\<lambda>(input_name, input_field).
                              format_prompt_value input_field (dict_get example_input input_name)
                                ''anthropic'')
                         (input_variables self)) @
           nl @ ''</input>'' @ nl @ ''<output>'' @ nl @
           py_join nl (map (\<lambda>(output_name, output_field).
                              format_prompt_value output_field
                                (example_output_value example_output output_name) ''anthropic'')
                         (output_variables self)) @
           nl @ ''</output>'' @ nl @ ''</example>''))"

definition anthropic_head :: "prompt_signature \<Rightarrow> message list" where
  "anthropic_head self =
     [SystemMessage anthropic_system_message,
      HumanMessage
        (''Provide answers for output fields '' @ output_field_names self @
         ''. Follow the XML output format, only show the output fields '' @
         ''do not repeat the hints, input fields or examples.'')] @
     (if hint_variables self \<noteq> []
      then [HumanMessage
              (''Hints:'' @ nl @
               py_join nl (map (\<lambda>(n, hint_field). format_prompt_description hint_field ''anthropic'')
                             (hint_variables self)))]
      else []) @
     [HumanMessage
        (''<input_fields>'' @ nl @
         py_join nl (map (\<lambda>(n, input_field). format_prompt_description input_field ''anthropic'')
                       (input_variables self)) @
         nl @ ''</input_fields>'' @ nl @ ''<output_fields>'' @ nl @
         py_join nl (map (\<lambda>(n, output_field). format_prompt_description output_field ''anthropic'')
                       (output_variables self)) @
         nl @ ''</output_fields>'')]"

definition anthropic_tail :: "prompt_signature \<Rightarrow> pydict \<Rightarrow> message list" where
  "anthropic_tail self kwargs =
     [HumanMessage
        (''<input>'' @ nl @
         py_join nl (map (\<lambda>(input_name, input_field).
                            format_prompt_value input_field (dict_get kwargs input_name)
                              ''anthropic'')
                       (input_variables self)) @
         nl @ ''</input>''),
      HumanMessage
        (''Respond with the output in the following format:'' @ nl @ ''<output>'' @ nl @
         ''[Your response here]'' @ nl @ ''</output>'')]"

definition default_format_anthropic_prompt ::
  "prompt_signature \<Rightarrow> trained_state option \<Rightarrow> pyval \<Rightarrow> example list \<Rightarrow> pydict
   \<Rightarrow> message list" where
  "default_format_anthropic_prompt self trained_state use_training examples kwargs =
     anthropic_head self @
     (if examples \<noteq> [] then map (anthropic_example_message self) examples else []) @
     (if use_trained_examples trained_state use_training
      then map (anthropic_example_message self) (trained_examples (the trained_state))
      else []) @
     anthropic_tail self kwargs"

subsection \<open>The strategy\<close>

definition DefaultPromptStrategy :: "pylib \<Rightarrow> prompt_strategy" where
  "DefaultPromptStrategy lib =
     \<lparr> format_openai_prompt =
         (\<lambda>self trained_state use_training examples kwargs.
            Inr (Text (default_format_openai_prompt self trained_state use_training examples
                         kwargs))),
       format_openai_json_prompt =
         (\<lambda>self trained_state use_training examples kwargs.
            Inr (Text (default_format_openai_json_prompt lib self trained_state use_training
                         examples kwargs))),
       format_anthropic_prompt =
         (\<lambda>self trained_state use_training examples kwargs.
            Inr (Messages (default_format_anthropic_prompt self trained_state use_training
                             examples kwargs))),
       parse_openai_output_to_fields = default_parse_openai_output_to_fields,
       parse_anthropic_output_to_fields = default_parse_anthropic_output_to_fields,
       parse_openai_json_output_to_fields = default_parse_openai_json_output_to_fields lib \<rparr>"

subsection \<open>More sample data\<close>

text \<open>
  Signatures with two output fields; a signature whose output field has parentheses in its
  display name; a stand-in for the \<^verbatim>\<open>json\<close> library; and a trained state with one example.
  The stand-in decodes the one document \<^verbatim>\<open>{"a": "1"}\<close> of the specification's round trip
  and rejects every other string. It prints strings (quoted, without escapes), \<^verbatim>\<open>None\<close>,
  booleans, lists and dictionaries in the layout of \<^verbatim>\<open>json.dumps(obj, indent=2)\<close>; numbers
  and other values, which the samples do not contain, are printed as \<^verbatim>\<open>null\<close>.
\<close>

fun sample_dumps :: "nat \<Rightarrow> pyval \<Rightarrow> string"
  and sample_dumps_items :: "nat \<Rightarrow> (string \<times> pyval) list \<Rightarrow> string list"
  and sample_dumps_elems :: "nat \<Rightarrow> pyval list \<Rightarrow> string list" where
  "sample_dumps ind (PStr s) = dquote @ s @ dquote"
| "sample_dumps ind (PBool b) = (if b then ''true'' else ''false'')"
| "sample_dumps ind (PDict d) =
     (if d = [] then ''{}''
      else ''{'' @ nl @ py_join ('','' @ nl) (sample_dumps_items (ind + 2) d) @ nl @
           replicate ind (CHR '' '') @ ''}'')"
| "sample_dumps ind (PList xs) =
     (if xs = [] then ''[]''
      else ''['' @ nl @ py_join ('','' @ nl) (sample_dumps_elems (ind + 2) xs) @ nl @
           replicate ind (CHR '' '') @ '']'')"
| "sample_dumps ind PNone = ''null''"
| "sample_dumps ind (PInt i) = ''null''"
| "sample_dumps ind (PFloat w) = ''null''"
| "sample_dumps ind (PTuple xs) = ''null''"
| "sample_dumps ind (PObject a) = ''null''"
| "sample_dumps_items ind [] = []"
| "sample_dumps_items ind ((k, v) # rest) =
     (replicate ind (CHR '' '') @ dquote @ k @ dquote @ '': '' @ sample_dumps ind v) #
     sample_dumps_items ind rest"
| "sample_dumps_elems ind [] = []"
| "sample_dumps_elems ind (v # rest) =
     (replicate ind (CHR '' '') @ sample_dumps ind v) # sample_dumps_elems ind rest"

definition sig_ab :: prompt_signature where
  "sig_ab =
     \<lparr> input_variables = [],
       output_variables = [(''a'', plain_field ''a'' ''first''), (''b'', plain_field ''b'' ''second'')],
       hint_variables = [], sig_examples = [] \<rparr>"

definition sig_summary :: prompt_signature where
  "sig_summary =
     \<lparr> input_variables = [],
       output_variables =
         [(''summary'', plain_field ''summary'' ''a summary''),
          (''score'', plain_field ''score'' ''a score'')],
       hint_variables = [], sig_examples = [] \<rparr>"

definition sig_score :: prompt_signature where
  "sig_score =
     \<lparr> input_variables = [],
       output_variables = [(''score'', plain_field ''Score (1-5)'' ''a score'')],
       hint_variables = [], sig_examples = [] \<rparr>"

definition doc_a1 :: string where
  "doc_a1 = ''{'' @ dquote @ ''a'' @ dquote @ '': '' @ dquote @ ''1'' @ dquote @ ''}''"

definition sample_lib :: pylib where
  "sample_lib =
     \<lparr> json_loads = (\<lambda>s. if s = doc_a1 then Inr (PDict [(''a'', PStr ''1'')])
                           else Inl JSONDecodeError),
       json_dumps = sample_dumps 0 \<rparr>"

definition sample_trained :: trained_state where
  "sample_trained = \<lparr> trained_examples = [([(''question'', PStr ''3+3'')], PStr ''6'')] \<rparr>"

text \<open>
  A signature with a hint, one input and two output fields, with an inline example whose
  output is a dictionary; a trained state with two examples for it, the second with a
  scalar output; and the input values of a call.
\<close>

definition sig_review :: prompt_signature where
  "sig_review =
     \<lparr> input_variables = [(''text'', plain_field ''Text'' ''the text'')],
       output_variables =
         [(''summary'', plain_field ''Summary'' ''a summary''),
          (''score'', plain_field ''Score'' ''a score'')],
       hint_variables = [(''hint'', plain_field ''Hint'' ''be brief'')],
       sig_examples =
         [([(''text'', PStr ''aaa'')], PDict [(''summary'', PStr ''a''), (''score'', PStr ''1'')])] \<rparr>"

definition trained_review :: trained_state where
  "trained_review =
     \<lparr> trained_examples =
         [([(''text'', PStr ''bbb'')], PDict [(''summary'', PStr ''b''), (''score'', PStr ''2'')]),
          ([(''text'', PStr ''ccc'')], PStr ''n/a'')] \<rparr>"

definition kwargs_review :: pydict where
  "kwargs_review = [(''text'', PStr ''ddd'')]"

definition kw_unsupported :: format_kwargs where
  "kw_unsupported =
     \<lparr> kw_llm_type = Some (PStr ''gpt''), kw_trained_state = None, kw_use_training = None,
       kw_examples = None, kw_inputs = [(''question'', PStr ''2+2'')] \<rparr>"

subsection \<open>Notions used in the statements\<close>

text \<open>
  The value JSON parsing gives an output field from a decoded object: the field's transform
  of the entry under its display name, or \<^verbatim>\<open>None\<close> when the object has no such entry.
\<close>

definition json_field_value :: "pydict \<Rightarrow> field_descriptor \<Rightarrow> pyval" where
  "json_field_value obj f =
     (case map_of obj (name f) of None \<Rightarrow> PNone | Some v \<Rightarrow> transform_value f v)"

text \<open>
  A line resolves to the output key \<open>k\<close> with content \<open>c\<close> when it matches the
  \<^verbatim>\<open>name: content\<close> pattern and its name is the display name of the (first) output field
  with key \<open>k\<close>.
\<close>

definition resolves_to :: "prompt_signature \<Rightarrow> string \<Rightarrow> string \<Rightarrow> string \<Rightarrow> bool" where
  "resolves_to self line k c =
     (\<exists>n. match_name_content line = Some (n, c) \<and>
          get_output_field (output_variables self) n = Some k)"

text \<open>
  A display name that stands for itself in a pattern: no special character and no
  parenthesis. For such a name the text bound to the field, if any, is the stripped last
  match of the tag search.
\<close>

definition plain_name :: "string \<Rightarrow> bool" where
  "plain_name n =
     (\<forall>c \<in> set n. c \<notin> set re_special \<and> c \<noteq> CHR ''('' \<and> c \<noteq> CHR '')'')"

definition tag_matches :: "string \<Rightarrow> string \<Rightarrow> string list" where
  "tag_matches n s = scan_tags (''<'' @ n @ ''>'') (''</'' @ n @ ''>'') s"

definition tagged_entry :: "string \<Rightarrow> string \<times> field_descriptor \<Rightarrow> pydict" where
  "tagged_entry s p =
     (case p of (output_name, output_field) \<Rightarrow>
        if tag_matches (name output_field) s = [] then []
        else [(output_name, PStr (strip (last (tag_matches (name output_field) s))))])"

text \<open>
  The condition of the specification for trained examples: \<^verbatim>\<open>use_training\<close> is true and a
  trained state with a non-empty list of examples is supplied.
\<close>

definition spec_training_condition :: "trained_state option \<Rightarrow> pyval \<Rightarrow> bool" where
  "spec_training_condition trained_state use_training =
     (truthy use_training \<and>
      (\<exists>ts. trained_state = Some ts \<and> trained_examples ts \<noteq> []))"

section \<open>Facts about dictionaries\<close>

lemma update_fresh: "k \<notin> set (keys al) \<Longrightarrow> AList.update k v al = al @ [(k, v)]"
  by (induction al) (auto simp: keys_def)

lemma keys_update: "set (keys (AList.update k v al)) = insert k (set (keys al))"
  using dom_update [of k v al] by (simp add: keys_def)

lemma update_entries:
  "(k', v') \<in> set (AList.update k v al) \<Longrightarrow> (k', v') = (k, v) \<or> (k', v') \<in> set al"
  by (induction al) (auto split: if_splits)

lemma has_key_map_of: "has_key d k \<longleftrightarrow> map_of d k \<noteq> None"
  by (simp add: has_key_def keys_def map_of_eq_None_iff)

lemma keys_fold_update:
  "set (keys (fold (\<lambda>(n, f). AList.update n (g f)) fs acc)) = set (keys acc) \<union> set (keys fs)"
proof (induction fs arbitrary: acc)
  case Nil
  show ?case by (simp add: keys_def)
next
  case (Cons p fs)
  obtain n f where p: "p = (n, f)" by (cases p)
  have "set (keys (AList.update n (g f) acc)) = insert n (set (keys acc))"
    using dom_update [of n "g f" acc] by (simp add: keys_def)
  then show ?case unfolding p by (simp add: Cons.IH) (auto simp: keys_def)
qed

lemma fold_update_distinct:
  "distinct (keys fs) \<Longrightarrow> set (keys fs) \<inter> set (keys acc) = {} \<Longrightarrow>
   fold (\<lambda>(n, f). AList.update n (g f)) fs acc = acc @ map (\<lambda>(n, f). (n, g f)) fs"
proof (induction fs arbitrary: acc)
  case Nil
  show ?case by simp
next
  case (Cons p fs)
  obtain n f where p: "p = (n, f)" by (cases p)
  from Cons.prems p have fresh: "n \<notin> set (keys acc)" and d: "distinct (keys fs)"
    and disj: "set (keys fs) \<inter> set (keys (acc @ [(n, g f)])) = {}"
    by (auto simp: keys_def)
  show ?case
    unfolding p by (simp add: update_fresh [OF fresh] Cons.IH [OF d disj])
qed

section \<open>Input validation\<close>

lemma validate_input_loop_keys:
  "validate_input_loop fs d acc = Inr r \<Longrightarrow> set (keys r) = set (keys acc) \<union> set (keys fs)"
proof (induction fs arbitrary: acc)
  case Nil
  then show ?case by (simp add: keys_def)
next
  case (Cons p fs)
  obtain n f where p: "p = (n, f)" by (cases p)
  from Cons.prems p Cons.IH show ?case
    by (auto simp: keys_update split: option.splits if_splits) (auto simp: keys_def)
qed

lemma validate_input_loop_order:
  "validate_input_loop fs d acc = Inr r \<Longrightarrow> distinct (keys fs) \<Longrightarrow>
   set (keys fs) \<inter> set (keys acc) = {} \<Longrightarrow> keys r = keys acc @ keys fs"
proof (induction fs arbitrary: acc)
  case Nil
  then show ?case by (simp add: keys_def)
next
  case (Cons p fs)
  obtain n f where p: "p = (n, f)" by (cases p)
  have fresh: "n \<notin> set (keys acc)" using Cons.prems(3) p by (auto simp: keys_def)
  have d: "distinct (keys fs)" and nfs: "n \<notin> set (keys fs)"
    using Cons.prems(2) p by (auto simp: keys_def)
  have disj: "set (keys fs) \<inter> set (keys (acc @ [(n, v)])) = {}" for v
    using Cons.prems(3) nfs p by (auto simp: keys_def)
  show ?case
  proof (cases "map_of d n")
    case None
    with Cons.prems(1) p have "validate_input_loop fs d (acc @ [(n, PNone)]) = Inr r"
      by (simp add: update_fresh [OF fresh] split: if_splits)
    from Cons.IH [OF this d disj] show ?thesis by (simp add: p keys_def)
  next
    case (Some v)
    with Cons.prems(1) p
    have "validate_input_loop fs d (acc @ [(n, transform_value f v)]) = Inr r"
      by (simp add: update_fresh [OF fresh] split: if_splits)
    from Cons.IH [OF this d disj] show ?thesis by (simp add: p keys_def)
  qed
qed

lemma validate_input_loop_undeclared:
  "k \<notin> set (keys fs) \<Longrightarrow>
   validate_input_loop fs (AList.update k v d) acc = validate_input_loop fs d acc"
proof (induction fs arbitrary: acc)
  case Nil
  then show ?case by simp
next
  case (Cons p fs)
  obtain n f where p: "p = (n, f)" by (cases p)
  from Cons.prems p have "n \<noteq> k" and "k \<notin> set (keys fs)" by (auto simp: keys_def)
  then show ?case using Cons.IH
    by (auto simp: p update_conv' split: option.splits)
qed

text \<open>
  Claim C10. \<open>validate_input\<close> (the method \<^verbatim>\<open>_validate_input\<close>): when the signature declares no
  input field, the caller's dictionary is returned as it is, whatever its keys. When at
  least one input field is declared and the call returns, the keys of the returned
  dictionary are exactly the declared input names (in declaration order when those are
  distinct, as the keys of a dictionary are), and a key of the caller's dictionary that is
  not declared does not change the outcome: it is dropped, not rejected.
\<close>

theorem validate_input_key_set:
  "(input_variables s = [] \<longrightarrow> validate_input s input_dict = Inr input_dict) \<and>
   (input_variables s \<noteq> [] \<and> validate_input s input_dict = Inr validated \<longrightarrow>
      set (keys validated) = set (keys (input_variables s)) \<and>
      (distinct (keys (input_variables s)) \<longrightarrow> keys validated = keys (input_variables s)) \<and>
      (\<forall>k v. k \<notin> set (keys (input_variables s)) \<longrightarrow>
         validate_input s (AList.update k v input_dict) = Inr validated))"
proof (intro conjI impI)
  show "validate_input s input_dict = Inr input_dict" if "input_variables s = []"
    using that by (simp add: validate_input_def)
next
  assume a: "input_variables s \<noteq> [] \<and> validate_input s input_dict = Inr validated"
  then have loop: "validate_input_loop (input_variables s) input_dict [] = Inr validated"
    by (auto simp: validate_input_def)
  show "set (keys validated) = set (keys (input_variables s))"
    using validate_input_loop_keys [OF loop] by (simp add: keys_def)
  show "keys validated = keys (input_variables s)" if "distinct (keys (input_variables s))"
    using validate_input_loop_order [OF loop that] by (simp add: keys_def)
  show "\<forall>k v. k \<notin> set (keys (input_variables s)) \<longrightarrow>
         validate_input s (AList.update k v input_dict) = Inr validated"
    using a loop by (auto simp: validate_input_def validate_input_loop_undeclared)
qed

theorem validate_input_key_set_witness:
  "validate_input sig_no_outputs [(''anything'', PInt 1)] = Inr [(''anything'', PInt 1)] \<and>
   input_variables sig_qa \<noteq> [] \<and>
   validate_input sig_qa [(''extra'', PInt 1), (''question'', PStr ''2+2'')] =
     Inr [(''question'', PStr ''2+2'')] \<and>
   keys [(''question'', PStr ''2+2'')] = keys (input_variables sig_qa) \<and>
   validate_input sig_qa
     (AList.update ''more'' PNone [(''extra'', PInt 1), (''question'', PStr ''2+2'')]) =
     Inr [(''question'', PStr ''2+2'')]"
proof -
  have n: "input_variables sig_no_outputs = []"
    by (simp add: sig_no_outputs_def)
  have q: "input_variables sig_qa \<noteq> [] \<and>
      validate_input sig_qa [(''extra'', PInt 1), (''question'', PStr ''2+2'')] =
        Inr [(''question'', PStr ''2+2'')]"
    by (simp add: sig_qa_def validate_input_def plain_field_def)
  have d: "distinct (keys (input_variables sig_qa))"
    and u: "''more'' \<notin> set (keys (input_variables sig_qa))"
    by (simp_all add: sig_qa_def keys_def)
  from validate_input_key_set [of sig_no_outputs "[(''anything'', PInt 1)]" "[]"] n
    validate_input_key_set [of sig_qa "[(''extra'', PInt 1), (''question'', PStr ''2+2'')]"
      "[(''question'', PStr ''2+2'')]"] q d u
  show ?thesis by blast
qed

section \<open>Validation of the inline examples\<close>

lemma check_input_names_fails:
  "isl (check_input_names s ks) \<longleftrightarrow> (\<exists>k \<in> set ks. \<not> has_key (input_variables s) k)"
  by (induction ks) auto

lemma check_output_names_fails:
  "isl (check_output_names s ks) \<longleftrightarrow> (\<exists>k \<in> set ks. \<not> has_key (output_variables s) k)"
  by (induction ks) auto

lemma check_example_output_fails:
  "isl (check_example_output s out) \<longleftrightarrow>
     undeclared_output_key s (inp, out) \<or> scalar_without_single_output s (inp, out)"
  by (cases out)
     (simp_all add: check_example_output_def undeclared_output_key_def
        scalar_without_single_output_def is_dict_def check_output_names_fails)

lemma validate_examples_loop_fails:
  "isl (validate_examples_loop s exs) \<longleftrightarrow>
     (\<exists>ex \<in> set exs. undeclared_input_key s ex \<or> undeclared_output_key s ex \<or>
        scalar_without_single_output s ex)"
proof (induction exs)
  case Nil
  then show ?case by simp
next
  case (Cons ex exs)
  obtain inp out where ex: "ex = (inp, out)" by (cases ex)
  have i: "isl (check_input_names s (keys inp)) \<longleftrightarrow> undeclared_input_key s (inp, out)"
    by (simp add: check_input_names_fails undeclared_input_key_def)
  have o: "isl (check_example_output s out) \<longleftrightarrow>
     undeclared_output_key s (inp, out) \<or> scalar_without_single_output s (inp, out)"
    by (rule check_example_output_fails)
  show ?case
    using Cons.IH i o unfolding ex
    by (cases "check_input_names s (keys inp)"; cases "check_example_output s out") auto
qed

text \<open>
  Claim C8, as amended. \<open>validate_examples\<close> fails exactly when some example has an input
  key that is no declared input name, or a dictionary output with a key that is no declared
  output name, or an output that is not a dictionary while the number of declared output
  fields is not exactly one (zero as well as two or more); otherwise it succeeds.
\<close>

theorem validate_examples_fails_iff:
  "isl (validate_examples s) \<longleftrightarrow> example_mismatch s"
  by (simp add: validate_examples_def example_mismatch_def validate_examples_loop_fails)

theorem validate_examples_fails_iff_witness:
  "isl (validate_examples sig_no_outputs) \<and> example_mismatch sig_no_outputs \<and>
   \<not> isl (validate_examples sig_qa) \<and> \<not> example_mismatch sig_qa"
proof -
  have 1: "example_mismatch sig_no_outputs"
    by (simp add: example_mismatch_def sig_no_outputs_def scalar_without_single_output_def
        is_dict_def)
  have 2: "\<not> example_mismatch sig_qa"
    by (simp add: example_mismatch_def sig_qa_def scalar_without_single_output_def
        undeclared_input_key_def undeclared_output_key_def is_dict_def has_key_def keys_def)
  show ?thesis
    using 1 2 validate_examples_fails_iff [of sig_no_outputs]
      validate_examples_fails_iff [of sig_qa] by simp
qed

text \<open>
  The claim as worded lets a scalar output fail only when more than one output field is
  declared. A signature without output fields and with a scalar example output fails
  validation, although none of the three worded conditions holds.
\<close>

theorem validate_examples_spec_counterexample:
  "isl (validate_examples sig_no_outputs) \<and> \<not> spec_example_mismatch sig_no_outputs"
  by (simp add: validate_examples_def sig_no_outputs_def check_example_output_def
      spec_example_mismatch_def spec_scalar_with_many_outputs_def undeclared_input_key_def
      undeclared_output_key_def keys_def)

section \<open>The role dictionaries built by the constructor\<close>

lemma declared_as_Cons:
  "declared_as c ((n, a) # cf) =
     (if role_of a = Some c then [(n, default_attr a)] else []) @ declared_as c cf"
  by (simp add: declared_as_def)

lemma partition_fields_step:
  "partition_fields ((n, a) # cf) (i, out, h) =
     partition_fields cf
       (case role_of a of
          None \<Rightarrow> (i, out, h)
        | Some InputField \<Rightarrow> (AList.update n (default_attr a) i, out, h)
        | Some OutputField \<Rightarrow> (i, AList.update n (default_attr a) out, h)
        | Some HintField \<Rightarrow> (i, out, AList.update n (default_attr a) h))"
  by (simp add: role_of_def)

lemma partition_fields_distinct:
  "distinct (keys cf) \<Longrightarrow>
   set (keys cf) \<inter> (set (keys i) \<union> set (keys out) \<union> set (keys h)) = {} \<Longrightarrow>
   partition_fields cf (i, out, h) =
     (i @ declared_as InputField cf, out @ declared_as OutputField cf,
      h @ declared_as HintField cf)"
proof (induction cf arbitrary: i out h)
  case Nil
  then show ?case by (simp add: declared_as_def)
next
  case (Cons p cf)
  obtain n a where p: "p = (n, a)" by (cases p)
  from Cons.prems p have d: "distinct (keys cf)" and ncf: "n \<notin> set (keys cf)"
    and ni: "n \<notin> set (keys i)" and no: "n \<notin> set (keys out)" and nh: "n \<notin> set (keys h)"
    and disj: "set (keys cf) \<inter> (set (keys i) \<union> set (keys out) \<union> set (keys h)) = {}"
    by (auto simp: keys_def)
  have step: "partition_fields cf (i', o', h') =
     (i' @ declared_as InputField cf, o' @ declared_as OutputField cf,
      h' @ declared_as HintField cf)"
    if "set (keys i') \<union> set (keys o') \<union> set (keys h') \<subseteq>
        insert n (set (keys i) \<union> set (keys out) \<union> set (keys h))" for i' o' h'
    using that ncf disj by (intro Cons.IH [OF d]) auto
  show ?case
  proof (cases "role_of a")
    case None
    have "partition_fields cf (i, out, h) =
      (i @ declared_as InputField cf, out @ declared_as OutputField cf,
       h @ declared_as HintField cf)"
      by (rule step) auto
    then show ?thesis
      unfolding p partition_fields_step declared_as_Cons by (simp add: None)
  next
    case (Some c)
    show ?thesis
    proof (cases c)
      case InputField
      have "partition_fields cf (i @ [(n, default_attr a)], out, h) =
        ((i @ [(n, default_attr a)]) @ declared_as InputField cf,
         out @ declared_as OutputField cf, h @ declared_as HintField cf)"
        by (rule step) (auto simp: keys_def)
      then show ?thesis
        unfolding p partition_fields_step declared_as_Cons
        by (simp add: Some InputField update_fresh [OF ni])
    next
      case OutputField
      have "partition_fields cf (i, out @ [(n, default_attr a)], h) =
        (i @ declared_as InputField cf,
         (out @ [(n, default_attr a)]) @ declared_as OutputField cf,
         h @ declared_as HintField cf)"
        by (rule step) (auto simp: keys_def)
      then show ?thesis
        unfolding p partition_fields_step declared_as_Cons
        by (simp add: Some OutputField update_fresh [OF no])
    next
      case HintField
      have "partition_fields cf (i, out, h @ [(n, default_attr a)]) =
        (i @ declared_as InputField cf, out @ declared_as OutputField cf,
         (h @ [(n, default_attr a)]) @ declared_as HintField cf)"
        by (rule step) (auto simp: keys_def)
      then show ?thesis
        unfolding p partition_fields_step declared_as_Cons
        by (simp add: Some HintField update_fresh [OF nh])
    qed
  qed
qed

lemma keys_declared_as:
  "set (keys (declared_as c cf)) = {n. \<exists>a. (n, a) \<in> set cf \<and> role_of a = Some c}"
  by (force simp: keys_def declared_as_def)

lemma init_roles:
  assumes "distinct (keys cf)" and "init cf exs = Inr s"
  shows "input_variables s = declared_as InputField cf"
    and "output_variables s = declared_as OutputField cf"
    and "hint_variables s = declared_as HintField cf"
proof -
  have "partition_fields cf ([], [], []) =
    (declared_as InputField cf, declared_as OutputField cf, declared_as HintField cf)"
    using partition_fields_distinct [OF assms(1), of "[]" "[]" "[]"] by (simp add: keys_def)
  with assms(2) show "input_variables s = declared_as InputField cf"
    and "output_variables s = declared_as OutputField cf"
    and "hint_variables s = declared_as HintField cf"
    by (auto simp: init_def Let_def split: sum.splits)
qed

text \<open>
  Claim C9, as amended. For every constructed signature (the declared fields of a class
  have distinct names, being the keys of a dictionary), the keys of the input, output and
  hint dictionaries together are exactly the declared fields whose type derives from one of
  the three descriptor classes, the three dictionaries are pairwise disjoint, and each
  holds, in declaration order, the fields the \<^verbatim>\<open>if\<close>/\<^verbatim>\<open>elif\<close> chain gives its role. A
  declared field of any other type is in none of them.
\<close>

theorem init_partitions_descriptor_fields:
  assumes "distinct (keys class_fields)" and "init class_fields class_examples = Inr s"
  shows "role_keys s = descriptor_fields class_fields \<and> roles_disjoint s \<and>
         input_variables s = declared_as InputField class_fields \<and>
         output_variables s = declared_as OutputField class_fields \<and>
         hint_variables s = declared_as HintField class_fields"
proof -
  note r = init_roles [OF assms]
  have uniq: "a = b" if "(n, a) \<in> set class_fields" "(n, b) \<in> set class_fields" for n a b
    using assms(1) that by (metis keys_def eq_key_imp_eq_value)
  have "role_keys s = descriptor_fields class_fields"
    unfolding role_keys_def r keys_declared_as descriptor_fields_def
    by (auto simp: keys_def role_of_def image_iff split: if_splits) force+
  moreover have "roles_disjoint s"
    unfolding roles_disjoint_def r keys_declared_as using uniq by fastforce
  ultimately show ?thesis using r by simp
qed

theorem init_partitions_descriptor_fields_witness:
  "distinct (keys class_qa) \<and> \<not> isl (init class_qa []) \<and>
   role_keys (projr (init class_qa [])) = {''question'', ''answer''} \<and>
   roles_disjoint (projr (init class_qa []))"
proof -
  have d: "distinct (keys class_qa)" by (simp add: class_qa_def keys_def)
  have i: "init class_qa [] = Inr (projr (init class_qa []))"
    by (simp add: init_def class_qa_def issubclass_def validate_examples_def)
  have df: "descriptor_fields class_qa = {''question'', ''answer''}"
    by (auto simp: descriptor_fields_def class_qa_def role_of_def issubclass_def keys_def)
  from init_partitions_descriptor_fields [OF d i] d i df show ?thesis
    by (metis sum.disc(2))
qed

text \<open>
  The claim as worded equates the union of the three key sets with the full declared field
  set. The class \<open>class_qa\<close> declares \<^verbatim>\<open>instance_id\<close>, a string field as \<^verbatim>\<open>PromptSignature\<close>
  itself declares it, next to one input and one output descriptor; its construction
  succeeds and \<^verbatim>\<open>instance_id\<close> is in no role dictionary.
\<close>

theorem init_full_field_set_counterexample:
  "distinct (keys class_qa) \<and> \<not> isl (init class_qa []) \<and>
   role_keys (projr (init class_qa [])) \<noteq> set (keys class_qa)"
proof -
  have i: "init class_qa [] =
    Inr \<lparr> input_variables = [(''question'', plain_field ''Question'' ''the question'')],
          output_variables = [(''answer'', plain_field ''Answer'' ''the answer'')],
          hint_variables = [], sig_examples = [] \<rparr>"
    by (simp add: init_def class_qa_def issubclass_def validate_examples_def)
  have "''instance_id'' \<notin> role_keys (projr (init class_qa []))"
    by (simp add: i role_keys_def keys_def)
  moreover have "''instance_id'' \<in> set (keys class_qa)"
    by (simp add: class_qa_def keys_def)
  ultimately have "role_keys (projr (init class_qa [])) \<noteq> set (keys class_qa)"
    by blast
  then show ?thesis by (simp add: i) (simp add: class_qa_def keys_def)
qed

section \<open>The entry points\<close>

text \<open>
  Claim C1. Every call of \<open>format_prompt\<close>, whatever the strategy, the signature, the
  convention and the input values, ends with the \<^verbatim>\<open>UnboundLocalError\<close> (a \<^verbatim>\<open>NameError\<close>)
  raised by reading the unbound local \<^verbatim>\<open>output\<close>. The error comes before input validation
  and before any renderer is chosen, so the result does not depend on the renderers, and
  no call returns a prompt.
\<close>

theorem format_prompt_always_raises:
  "format_prompt strategy self kw = Inl (UnboundLocalError ''output'')"
  by (simp add: format_prompt_def read_local_def Let_def)

text \<open>
  The parse entry point does what the specification says of an unrecognised convention,
  and \<^verbatim>\<open>test\<close> selects the plain-text parser.
\<close>

lemma parse_output_to_fields_unsupported:
  "llm_type \<notin> {''openai_json'', ''openai'', ''anthropic'', ''fake_anthropic'', ''test''} \<Longrightarrow>
   parse_output_to_fields strategy self output llm_type =
     Inl (ValueError (UnsupportedLLMType (PStr llm_type)))"
  by (simp add: parse_output_to_fields_def)

lemma parse_output_to_fields_test_alias:
  "parse_output_to_fields strategy self output ''test'' =
     parse_output_to_fields strategy self output ''openai''"
  by (simp add: parse_output_to_fields_def)

text \<open>
  Claim C2, at the convention \<^verbatim>\<open>gpt\<close>, which neither entry point recognises. The parse
  entry point fails with the \<^verbatim>\<open>ValueError\<close> for an unsupported type, as claimed. The render
  entry point does not: it fails with the \<^verbatim>\<open>UnboundLocalError\<close> of the unbound \<^verbatim>\<open>output\<close>
  and never reaches its own \<^verbatim>\<open>raise ValueError\<close>.
\<close>

theorem format_prompt_unsupported_llm_type:
  "format_prompt (DefaultPromptStrategy sample_lib) sig_qa kw_unsupported =
     Inl (UnboundLocalError ''output'') \<and>
   format_prompt (DefaultPromptStrategy sample_lib) sig_qa kw_unsupported \<noteq>
     Inl (ValueError (UnsupportedLLMType (PStr ''gpt''))) \<and>
   parse_output_to_fields (DefaultPromptStrategy sample_lib) sig_qa (PStr ''4'') ''gpt'' =
     Inl (ValueError (UnsupportedLLMType (PStr ''gpt'')))"
  by (simp add: format_prompt_def read_local_def Let_def parse_output_to_fields_def)

section \<open>JSON parsing\<close>

lemma parse_json_loop_object:
  "parse_json_loop fs (PDict obj) acc =
     Inr (fold (\<lambda>(n, f). AList.update n (json_field_value obj f)) fs acc)"
proof (induction fs arbitrary: acc)
  case Nil
  show ?case by simp
next
  case (Cons p fs)
  obtain n f where p: "p = (n, f)" by (cases p)
  show ?case
  proof (cases "map_of obj (name f)")
    case None
    then show ?thesis
      unfolding p
      by (simp add: Cons.IH py_in_def has_key_map_of json_field_value_def)
  next
    case (Some v)
    then show ?thesis
      unfolding p
      by (simp add: Cons.IH py_in_def py_getitem_def has_key_map_of json_field_value_def)
  qed
qed

text \<open>
  Claim C3. When the raw output decodes to a JSON object, JSON parsing returns a dictionary
  whose keys are exactly the declared output names; for a signature (whose output names
  are distinct) it holds, for each output field in declaration order, the field's transform
  of the object's entry under the field's display name when there is one, and \<^verbatim>\<open>None\<close>
  when there is none.
\<close>

theorem parse_json_object:
  assumes "json_loads lib raw = Inr (PDict obj)"
  shows "\<exists>parsed.
           default_parse_openai_json_output_to_fields lib self (PStr raw) = Inr parsed \<and>
           set (keys parsed) = set (keys (output_variables self)) \<and>
           (distinct (keys (output_variables self)) \<longrightarrow>
              parsed = map (\<lambda>(output_name, output_field).
                              (output_name, json_field_value obj output_field))
                         (output_variables self))"
proof -
  let ?parsed = "fold (\<lambda>(n, f). AList.update n (json_field_value obj f))
                   (output_variables self) []"
  have 1: "default_parse_openai_json_output_to_fields lib self (PStr raw) = Inr ?parsed"
    using assms by (simp add: default_parse_openai_json_output_to_fields_def parse_json_loop_object)
  have 2: "set (keys ?parsed) = set (keys (output_variables self))"
    by (simp add: keys_fold_update) (simp add: keys_def)
  have 3: "?parsed = map (\<lambda>(n, f). (n, json_field_value obj f)) (output_variables self)"
    if "distinct (keys (output_variables self))"
    using fold_update_distinct [OF that, of "[]"] by (simp add: keys_def)
  from 1 2 3 show ?thesis by blast
qed

theorem parse_json_object_witness:
  "json_loads sample_lib doc_a1 = Inr (PDict [(''a'', PStr ''1'')]) \<and>
   distinct (keys (output_variables sig_ab)) \<and>
   default_parse_openai_json_output_to_fields sample_lib sig_ab (PStr doc_a1) =
     Inr [(''a'', PStr ''1''), (''b'', PNone)]"
proof -
  have l: "json_loads sample_lib doc_a1 = Inr (PDict [(''a'', PStr ''1'')])"
    by (simp add: sample_lib_def)
  have d: "distinct (keys (output_variables sig_ab))"
    by (simp add: sig_ab_def keys_def)
  have m: "map (\<lambda>(output_name, output_field).
                  (output_name, json_field_value [(''a'', PStr ''1'')] output_field))
             (output_variables sig_ab) = [(''a'', PStr ''1''), (''b'', PNone)]"
    by (simp add: sig_ab_def json_field_value_def plain_field_def)
  from parse_json_object [OF l, of sig_ab] l d m show ?thesis by auto
qed



section \<open>Tagged-markup parsing\<close>

lemma plain_name_balanced: "plain_name n \<Longrightarrow> balanced d n = (d = 0)"
  by (induction n arbitrary: d) (auto simp: plain_name_def)

lemma plain_name_without_parens: "plain_name n \<Longrightarrow> without_parens n = n"
  by (induction n) (auto simp: plain_name_def without_parens_def)

lemma plain_name_groups: "plain_name n \<Longrightarrow> name_groups n = []"
  by (induction n) (auto simp: plain_name_def)

lemma findall_tag_plain:
  "plain_name n \<Longrightarrow> findall_tag n (PStr s) = Inr (map PStr (tag_matches n s))"
  by (simp add: findall_tag_def plain_name_balanced plain_name_without_parens plain_name_groups
      tag_matches_def) (auto simp: plain_name_def)

lemma parse_anthropic_loop_plain:
  "\<forall>(k, f) \<in> set fs. plain_name (name f) \<Longrightarrow> distinct (keys fs) \<Longrightarrow>
   set (keys fs) \<inter> set (keys acc) = {} \<Longrightarrow>
   parse_anthropic_loop fs (PStr s) acc = Inr (acc @ concat (map (tagged_entry s) fs))"
proof (induction fs arbitrary: acc)
  case Nil
  show ?case by simp
next
  case (Cons p fs)
  obtain k f where p: "p = (k, f)" by (cases p)
  from Cons.prems p have pl: "plain_name (name f)" and rest: "\<forall>(k, f) \<in> set fs. plain_name (name f)"
    and d: "distinct (keys fs)" and fresh: "k \<notin> set (keys acc)"
    and disj: "set (keys fs) \<inter> set (keys acc) = {}"
    and disj': "set (keys fs) \<inter> set (keys (acc @ [(k, v)])) = {}" for v
    by (auto simp: keys_def)
  show ?case
  proof (cases "tag_matches (name f) s = []")
    case True
    then show ?thesis
      unfolding p
      by (simp add: findall_tag_plain [OF pl] Cons.IH [OF rest d disj] tagged_entry_def)
  next
    case False
    then have l: "last (map PStr (tag_matches (name f) s)) = PStr (last (tag_matches (name f) s))"
      by (simp add: last_map)
    from False show ?thesis
      unfolding p
      by (simp add: findall_tag_plain [OF pl] l update_fresh [OF fresh]
          Cons.IH [OF rest d disj'] tagged_entry_def)
  qed
qed

text \<open>
  For display names without special characters the parser does what the specification
  says: the raw output is a string or an object whose \<^verbatim>\<open>content\<close> is one, each output
  field with at least one tag match is bound to the stripped last match, a field without a
  match has no key, and no error is raised.
\<close>

lemma parse_anthropic_plain_names:
  assumes "\<forall>(k, f) \<in> set (output_variables self). plain_name (name f)"
    and "distinct (keys (output_variables self))"
    and "output = PStr s \<or> (\<exists>attrs. output = PObject attrs \<and> map_of attrs ''content'' = Some (PStr s))"
  shows "default_parse_anthropic_output_to_fields self output =
           Inr (concat (map (tagged_entry s) (output_variables self)))"
proof -
  have "(if hasattr output ''content'' then getattr output ''content'' else output) = PStr s"
    using assms(3)
    by (auto simp: hasattr_def getattr_def dict_get_def dict_get_default_def has_key_map_of)
  then show ?thesis
    using parse_anthropic_loop_plain [OF assms(1,2), of "[]" s]
    by (simp add: default_parse_anthropic_output_to_fields_def keys_def)
qed

text \<open>The round trip of the specification.\<close>

lemma parse_anthropic_round_trip:
  "default_parse_anthropic_output_to_fields sig_summary
     (PStr ''<summary>ok</summary><score>5</score>'') =
     Inr [(''summary'', PStr ''ok''), (''score'', PStr ''5'')]"
  by (simp add: default_parse_anthropic_output_to_fields_def sig_summary_def plain_field_def
      hasattr_def findall_tag_def re_special_def without_parens_def strip_def lstrip_def
      rstrip_def py_whitespace_def strip_leading.simps)

text \<open>
  Claim C5, at an output field with the display name \<^verbatim>\<open>Score (1-5)\<close>. The name goes into
  the pattern unescaped, its parentheses become a group, and the pattern matches the tag
  \<^verbatim>\<open><Score 1-5>\<close>, not the field's own tag. On \<^verbatim>\<open><Score 1-5>4</Score 1-5>\<close> the match is a
  tuple and stripping it raises \<^verbatim>\<open>AttributeError\<close>, where the claim has each field bound
  or left out without an error; on \<^verbatim>\<open><Score (1-5)>4</Score (1-5)>\<close>, the field's own tags,
  nothing matches and the field is left out.
\<close>

theorem parse_anthropic_parenthesised_name:
  "default_parse_anthropic_output_to_fields sig_score (PStr ''<Score 1-5>4</Score 1-5>'') =
     Inl AttributeError \<and>
   default_parse_anthropic_output_to_fields sig_score (PStr ''<Score (1-5)>4</Score (1-5)>'') =
     Inr []"
  by (simp add: default_parse_anthropic_output_to_fields_def sig_score_def plain_field_def
      hasattr_def findall_tag_def re_special_def without_parens_def)

section \<open>Plain-text parsing\<close>

lemma py_split_loop_nonempty: "py_split_loop sep chunk s \<noteq> []"
  by (induction sep chunk s rule: py_split_loop.induct) auto

lemma parse_openai_lines_entries:
  "(k, v) \<in> set (parse_openai_lines self lines acc) \<Longrightarrow>
   (k, v) \<in> set acc \<or> (\<exists>line \<in> set lines. \<exists>c. resolves_to self line k c \<and> v = PStr c)"
proof (induction lines arbitrary: acc)
  case Nil
  then show ?case by simp
next
  case (Cons line lines)
  show ?case
  proof (cases "match_name_content line")
    case None
    with Cons.prems have "(k, v) \<in> set (parse_openai_lines self lines acc)" by simp
    from Cons.IH [OF this] show ?thesis by auto
  next
    case (Some m)
    obtain n c where m: "m = (n, c)" by (cases m)
    show ?thesis
    proof (cases "get_output_field (output_variables self) n")
      case None
      with Cons.prems Some m have "(k, v) \<in> set (parse_openai_lines self lines acc)" by simp
      from Cons.IH [OF this] show ?thesis by auto
    next
      case (Some key)
      show ?thesis
      proof (cases "key = []")
        case True
        with Cons.prems Some m \<open>match_name_content line = Some m\<close>
        have "(k, v) \<in> set (parse_openai_lines self lines acc)" by simp
        from Cons.IH [OF this] show ?thesis by auto
      next
        case False
        with Cons.prems Some m \<open>match_name_content line = Some m\<close>
        have "(k, v) \<in> set (parse_openai_lines self lines (AList.update key (PStr c) acc))"
          by simp
        from Cons.IH [OF this] show ?thesis
        proof
          assume "(k, v) \<in> set (AList.update key (PStr c) acc)"
          from update_entries [OF this] show ?thesis
          proof
            assume "(k, v) = (key, PStr c)"
            then have "resolves_to self line k c \<and> v = PStr c"
              using Some m \<open>match_name_content line = Some m\<close>
              by (auto simp: resolves_to_def)
            then show ?thesis by auto
          next
            assume "(k, v) \<in> set acc"
            then show ?thesis by simp
          qed
        next
          assume "\<exists>line \<in> set lines. \<exists>c. resolves_to self line k c \<and> v = PStr c"
          then show ?thesis by auto
        qed
      qed
    qed
  qed
qed

lemma parse_openai_lines_no_match:
  "output_variables self = [(output_name, output_field)] \<Longrightarrow>
   \<forall>line \<in> set lines. \<forall>c. match_name_content line \<noteq> Some (name output_field, c) \<Longrightarrow>
   parse_openai_lines self lines acc = acc"
proof (induction lines arbitrary: acc)
  case Nil
  show ?case by simp
next
  case (Cons line lines)
  from Cons.prems have rest: "parse_openai_lines self lines acc = acc" for acc
    by (intro Cons.IH) auto
  show ?case
  proof (cases "match_name_content line")
    case None
    then show ?thesis by (simp add: rest)
  next
    case (Some m)
    obtain n c where m: "m = (n, c)" by (cases m)
    from Cons.prems(2) Some m have "n \<noteq> name output_field" by auto
    then show ?thesis using Some m Cons.prems(1) by (simp add: rest)
  qed
qed

text \<open>
  Claim C6. With exactly one declared output field and no piece of the split raw output
  matching the \<^verbatim>\<open>name: content\<close> pattern with that field's display name, the result binds
  the field to the whole last piece. With more than one declared output field, every entry
  of the result comes from a piece that matched and resolved to its key, with that piece's
  content as value: a field no piece resolved to has no entry, and nothing is padded.
\<close>

theorem parse_openai_single_fallback_and_drop:
  "(output_variables self = [(output_name, output_field)] \<and>
    (\<forall>line \<in> set (py_split OUTPUT_TOKEN s). \<forall>c.
        match_name_content line \<noteq> Some (name output_field, c)) \<longrightarrow>
    default_parse_openai_output_to_fields self (PStr s) =
      Inr [(output_name, PStr (last (py_split OUTPUT_TOKEN s)))]) \<and>
   (1 < length (output_variables self) \<longrightarrow>
    (\<exists>parsed. default_parse_openai_output_to_fields self (PStr s) = Inr parsed \<and>
       (\<forall>(k, v) \<in> set parsed. \<exists>line \<in> set (py_split OUTPUT_TOKEN s). \<exists>c.
           resolves_to self line k c \<and> v = PStr c)))"
proof (intro conjI impI)
  assume a: "output_variables self = [(output_name, output_field)] \<and>
    (\<forall>line \<in> set (py_split OUTPUT_TOKEN s). \<forall>c.
        match_name_content line \<noteq> Some (name output_field, c))"
  then have "parse_openai_lines self (py_split OUTPUT_TOKEN s) [] = []"
    by (intro parse_openai_lines_no_match) auto
  with a show "default_parse_openai_output_to_fields self (PStr s) =
      Inr [(output_name, PStr (last (py_split OUTPUT_TOKEN s)))]"
    by (simp add: default_parse_openai_output_to_fields_def)
next
  assume many: "1 < length (output_variables self)"
  let ?parsed = "parse_openai_lines self (py_split OUTPUT_TOKEN s) []"
  from many have "default_parse_openai_output_to_fields self (PStr s) = Inr ?parsed"
    by (auto simp: default_parse_openai_output_to_fields_def Let_def split: list.splits)
  moreover have "\<forall>(k, v) \<in> set ?parsed. \<exists>line \<in> set (py_split OUTPUT_TOKEN s). \<exists>c.
           resolves_to self line k c \<and> v = PStr c"
    using parse_openai_lines_entries [of _ _ self "py_split OUTPUT_TOKEN s" "[]"] by auto
  ultimately show "\<exists>parsed. default_parse_openai_output_to_fields self (PStr s) = Inr parsed \<and>
       (\<forall>(k, v) \<in> set parsed. \<exists>line \<in> set (py_split OUTPUT_TOKEN s). \<exists>c.
           resolves_to self line k c \<and> v = PStr c)"
    by blast
qed

lemma split_42: "py_split OUTPUT_TOKEN ''42'' = [''42'']"
  by (simp add: py_split_def OUTPUT_TOKEN_def)

lemma split_summary:
  "py_split OUTPUT_TOKEN (OUTPUT_TOKEN @ ''summary: ok'') = ['''', ''summary: ok'']"
  by (simp add: py_split_def OUTPUT_TOKEN_def)

theorem parse_openai_single_fallback_and_drop_witness:
  "output_variables sig_qa = [(''answer'', plain_field ''Answer'' ''the answer'')] \<and>
   py_split OUTPUT_TOKEN ''42'' = [''42''] \<and> match_name_content ''42'' = None \<and>
   default_parse_openai_output_to_fields sig_qa (PStr ''42'') = Inr [(''answer'', PStr ''42'')] \<and>
   1 < length (output_variables sig_summary) \<and>
   default_parse_openai_output_to_fields sig_summary (PStr (OUTPUT_TOKEN @ ''summary: ok'')) =
     Inr [(''summary'', PStr ''ok'')] \<and>
   resolves_to sig_summary ''summary: ok'' ''summary'' ''ok''"
proof -
  have o: "output_variables sig_qa = [(''answer'', plain_field ''Answer'' ''the answer'')]"
    by (simp add: sig_qa_def)
  have n: "name (plain_field ''Answer'' ''the answer'') = ''Answer''"
    by (simp add: plain_field_def)
  have nm: "\<forall>line \<in> set (py_split OUTPUT_TOKEN ''42''). \<forall>c.
      match_name_content line \<noteq> Some (''Answer'', c)"
    by (simp add: split_42 match_name_content_def)
  have m: "1 < length (output_variables sig_summary)"
    by (simp add: sig_summary_def)
  have p: "default_parse_openai_output_to_fields sig_summary
             (PStr (OUTPUT_TOKEN @ ''summary: ok'')) = Inr [(''summary'', PStr ''ok'')]"
    by (simp add: default_parse_openai_output_to_fields_def split_summary sig_summary_def
        match_name_content_def plain_field_def)
  have r: "resolves_to sig_summary ''summary: ok'' ''summary'' ''ok''"
    by (simp add: resolves_to_def sig_summary_def match_name_content_def plain_field_def)
  from parse_openai_single_fallback_and_drop
         [of sig_qa "''answer''" "plain_field ''Answer'' ''the answer''" "''42''"]
       parse_openai_single_fallback_and_drop [of sig_summary _ _ "OUTPUT_TOKEN @ ''summary: ok''"]
       o n nm m p r
  show ?thesis by (simp add: split_42 match_name_content_def)
qed

section \<open>Trained examples in the rendered prompt\<close>

text \<open>
  The three prompts rendered for the sample signature \<open>sig_review\<close>, with its hint, its
  inline example (aaa), the two trained examples (bbb, with a dictionary output, and ccc,
  with a scalar output) and the input ddd.
\<close>

lemma render_sample_openai:
  "default_format_openai_prompt sig_review (Some trained_review) (PBool True) (sig_examples sig_review)
     kwargs_review =
     ''Follow the following format. Attributes that have values should not be changed or repeated. Provide answers for Summary, Score'' @
     nl @ nl @ ''Hint: be brief'' @ nl @ nl @ nl @ ''Text: the text'' @ nl @
     ''Summary: a summary'' @ nl @ ''Score: a score'' @ nl @ nl @ ''---'' @ nl @ nl @
     ''Text: aaa'' @ nl @ ''Summary: a'' @ nl @ ''Score: 1'' @ nl @ nl @ ''---'' @ nl @
     nl @ ''Text: bbb'' @ nl @ ''Summary: b'' @ nl @ ''Score: 2'' @ nl @ nl @ ''---'' @
     nl @ nl @ ''Text: ccc'' @ nl @ ''Summary: n/a'' @ nl @ ''Score: n/a'' @ nl @ nl @
     ''---'' @ nl @ nl @ ''Text: ddd'' @ nl @ ''Summary:'' @ nl @ ''Score:'' @ nl"
  by (simp add: default_format_openai_prompt_def openai_head_def openai_tail_def
      openai_examples_text_def openai_example_text_def output_field_names_def
      sig_review_def trained_review_def kwargs_review_def plain_field_def show_value_def
      dict_get_def dict_get_default_def example_output_value_def use_trained_examples_def)

lemma render_sample_json:
  "default_format_openai_json_prompt sample_lib sig_review (Some trained_review) (PBool True) (sig_examples sig_review)
     kwargs_review =
     ''Follow the following format. Answer with a JSON object. Attributes that have values should not be changed or repeated. Provide answers for Summary, Score.'' @
     nl @ nl @ ''Hint: be brief'' @ nl @ nl @ ''Input Fields:'' @ nl @ ''{'' @ nl @
     ''  '' @ dquote @ ''Text'' @ dquote @ '': '' @ dquote @ ''the text'' @ dquote @
     nl @ ''}'' @ nl @ nl @ ''Output Fields:'' @ nl @ ''{'' @ nl @ ''  '' @ dquote @
     ''Summary'' @ dquote @ '': '' @ dquote @ ''a summary'' @ dquote @ '','' @ nl @
     ''  '' @ dquote @ ''Score'' @ dquote @ '': '' @ dquote @ ''a score'' @ dquote @
     nl @ ''}'' @ nl @ nl @ ''Examples:'' @ nl @ ''{'' @ nl @ ''  '' @ dquote @
     ''input'' @ dquote @ '': {'' @ nl @ ''    '' @ dquote @ ''Text'' @ dquote @
     '': '' @ dquote @ ''aaa'' @ dquote @ nl @ ''  },'' @ nl @ ''  '' @ dquote @
     ''output'' @ dquote @ '': {'' @ nl @ ''    '' @ dquote @ ''Summary'' @ dquote @
     '': '' @ dquote @ ''a'' @ dquote @ '','' @ nl @ ''    '' @ dquote @ ''Score'' @
     dquote @ '': '' @ dquote @ ''1'' @ dquote @ nl @ ''  }'' @ nl @ ''}'' @ nl @ nl @
     ''Trained Examples:'' @ nl @ ''{'' @ nl @ ''  '' @ dquote @ ''input'' @ dquote @
     '': {'' @ nl @ ''    '' @ dquote @ ''Text'' @ dquote @ '': '' @ dquote @ ''bbb'' @
     dquote @ nl @ ''  },'' @ nl @ ''  '' @ dquote @ ''output'' @ dquote @ '': {'' @
     nl @ ''    '' @ dquote @ ''Summary'' @ dquote @ '': '' @ dquote @ ''b'' @ dquote @
     '','' @ nl @ ''    '' @ dquote @ ''Score'' @ dquote @ '': '' @ dquote @ ''2'' @
     dquote @ nl @ ''  }'' @ nl @ ''}'' @ nl @ ''{'' @ nl @ ''  '' @ dquote @
     ''input'' @ dquote @ '': {'' @ nl @ ''    '' @ dquote @ ''Text'' @ dquote @
     '': '' @ dquote @ ''ccc'' @ dquote @ nl @ ''  },'' @ nl @ ''  '' @ dquote @
     ''output'' @ dquote @ '': {'' @ nl @ ''    '' @ dquote @ ''Summary'' @ dquote @
     '': '' @ dquote @ ''n/a'' @ dquote @ '','' @ nl @ ''    '' @ dquote @ ''Score'' @
     dquote @ '': '' @ dquote @ ''n/a'' @ dquote @ nl @ ''  }'' @ nl @ ''}'' @ nl @
     nl @ ''Input:'' @ nl @ ''{'' @ nl @ ''  '' @ dquote @ ''Text'' @ dquote @ '': '' @
     dquote @ ''ddd'' @ dquote @ nl @ ''}'' @ nl @ nl @ ''Output:'' @ nl @ ''{'' @ nl @
     ''  '' @ dquote @ ''Summary'' @ dquote @ '': '' @ dquote @ dquote @ '','' @ nl @
     ''  '' @ dquote @ ''Score'' @ dquote @ '': '' @ dquote @ dquote @ nl @ ''}'' @ nl"
  by (simp add: default_format_openai_json_prompt_def json_head_def json_tail_def
      json_examples_text_def json_example_dict_def fields_dict_def dict_update_def
      output_field_names_def sample_lib_def
      sig_review_def trained_review_def kwargs_review_def plain_field_def show_value_def
      dict_get_def dict_get_default_def example_output_value_def use_trained_examples_def)

lemma render_sample_anthropic:
  "default_format_anthropic_prompt sig_review (Some trained_review) (PBool True) (sig_examples sig_review)
     kwargs_review =
     [SystemMessage anthropic_system_message,
      HumanMessage
        (''Provide answers for output fields Summary, Score. Follow the XML output format, only show the output fields do not repeat the hints, input fields or examples.''),
      HumanMessage
        (''Hints:'' @ nl @ ''Hint: be brief''),
      HumanMessage
        (''<input_fields>'' @ nl @ ''Text: the text'' @ nl @ ''</input_fields>'' @ nl @
         ''<output_fields>'' @ nl @ ''Summary: a summary'' @ nl @ ''Score: a score'' @
         nl @ ''</output_fields>''),
      HumanMessage
        (''<example>'' @ nl @ ''<input>'' @ nl @ ''Text: aaa'' @ nl @ ''</input>'' @
         nl @ ''<output>'' @ nl @ ''Summary: a'' @ nl @ ''Score: 1'' @ nl @
         ''</output>'' @ nl @ ''</example>''),
      HumanMessage
        (''<example>'' @ nl @ ''<input>'' @ nl @ ''Text: bbb'' @ nl @ ''</input>'' @
         nl @ ''<output>'' @ nl @ ''Summary: b'' @ nl @ ''Score: 2'' @ nl @
         ''</output>'' @ nl @ ''</example>''),
      HumanMessage
        (''<example>'' @ nl @ ''<input>'' @ nl @ ''Text: ccc'' @ nl @ ''</input>'' @
         nl @ ''<output>'' @ nl @ ''Summary: n/a'' @ nl @ ''Score: n/a'' @ nl @
         ''</output>'' @ nl @ ''</example>''),
      HumanMessage
        (''<input>'' @ nl @ ''Text: ddd'' @ nl @ ''</input>''),
      HumanMessage
        (''Respond with the output in the following format:'' @ nl @ ''<output>'' @
         nl @ ''[Your response here]'' @ nl @ ''</output>'')]"
  by (simp add: default_format_anthropic_prompt_def anthropic_head_def anthropic_tail_def
      anthropic_example_message_def output_field_names_def
      sig_review_def trained_review_def kwargs_review_def plain_field_def show_value_def
      dict_get_def dict_get_default_def example_output_value_def use_trained_examples_def)

text \<open>
  Claim C7. For each of the three renderers, the trained state changes the rendered prompt
  if and only if \<^verbatim>\<open>use_training\<close> is true and a trained state with a non-empty list of
  examples is supplied. When the condition holds, the prompt is the prompt rendered without
  a trained state with the trained examples inserted (behind the inline examples, whatever
  they are): in the plain-text prompt a separator and the formatted value of every input
  and output field for each trained example, in the JSON prompt a heading and the dumped
  \<^verbatim>\<open>input\<close>/\<^verbatim>\<open>output\<close> object of each trained example, in the tagged-markup prompt one
  \<^verbatim>\<open><example>\<close> message per trained example. The inserted text is written out in terms of
  the descriptors' formatters applied to the trained example's values (an output that is
  not a dictionary is given to every output field). When the condition fails, the prompt
  is exactly the prompt rendered without a trained state.
\<close>

theorem trained_examples_gated:
  "(spec_training_condition trained_state use_training \<longrightarrow>
      (\<exists>before after.
         default_format_openai_prompt self trained_state use_training examples kwargs =
           before @
           concat (map (\<lambda>(example_X, example_y).
                          nl @ ''---'' @ nl @ nl @
                          concat (map (\<lambda>(input_name, input_field).
                                         format_prompt_value input_field
                                           (dict_get example_X input_name) ''openai'' @ nl)
                                    (input_variables self)) @
                          concat (map (\<lambda>(output_name, output_field).
                                         format_prompt_value output_field
                                           (case example_y of
                                              PDict d \<Rightarrow> dict_get d output_name
                                            | _ \<Rightarrow> example_y) ''openai'' @ nl)
                                    (output_variables self)))
                     (trained_examples (the trained_state))) @
           after \<and>
         default_format_openai_prompt self None use_training examples kwargs = before @ after) \<and>
      (\<exists>before after.
         default_format_openai_json_prompt lib self trained_state use_training examples kwargs =
           before @
           (nl @ ''Trained Examples:'' @ nl @
            concat (map (\<lambda>(example_X, example_y).
                           json_dumps lib
                             (PDict
                                [(''input'',
                                    PDict (fold (\<lambda>(input_name, input_field).
                                                   fold (\<lambda>(k, v). AList.update k v)
                                                     (format_prompt_value_json input_field
                                                        (dict_get example_X input_name)
                                                        ''openai_json''))
                                             (input_variables self) [])),
                                 (''output'',
                                    PDict (fold (\<lambda>(output_name, output_field).
                                                   fold (\<lambda>(k, v). AList.update k v)
                                                     (format_prompt_value_json output_field
                                                        (case example_y of
                                                           PDict d \<Rightarrow> dict_get d output_name
                                                         | _ \<Rightarrow> example_y)
                                                        ''openai_json''))
                                             (output_variables self) []))]) @ nl)
                      (trained_examples (the trained_state)))) @
           after \<and>
         default_format_openai_json_prompt lib self None use_training examples kwargs =
           before @ after) \<and>
      (\<exists>before after.
         default_format_anthropic_prompt self trained_state use_training examples kwargs =
           before @
           map (\<lambda>(example_X, example_y).
                  HumanMessage
                    (''<example>'' @ nl @ ''<input>'' @ nl @
                     py_join nl (map (\<lambda>(input_name, input_field).
                                        format_prompt_value input_field
                                          (dict_get example_X input_name) ''anthropic'')
                                   (input_variables self)) @
                     nl @ ''</input>'' @ nl @ ''<output>'' @ nl @
                     py_join nl (map (\<lambda>(output_name, output_field).
                                        format_prompt_value output_field
                                          (case example_y of
                                             PDict d \<Rightarrow> dict_get d output_name
                                           | _ \<Rightarrow> example_y) ''anthropic'')
                                   (output_variables self)) @
                     nl @ ''</output>'' @ nl @ ''</example>''))
             (trained_examples (the trained_state)) @
           after \<and>
         default_format_anthropic_prompt self None use_training examples kwargs =
           before @ after)) \<and>
   (\<not> spec_training_condition trained_state use_training \<longrightarrow>
      default_format_openai_prompt self trained_state use_training examples kwargs =
        default_format_openai_prompt self None use_training examples kwargs \<and>
      default_format_openai_json_prompt lib self trained_state use_training examples kwargs =
        default_format_openai_json_prompt lib self None use_training examples kwargs \<and>
      default_format_anthropic_prompt self trained_state use_training examples kwargs =
        default_format_anthropic_prompt self None use_training examples kwargs) \<and>
   ((default_format_openai_prompt self trained_state use_training examples kwargs \<noteq>
       default_format_openai_prompt self None use_training examples kwargs) =
      spec_training_condition trained_state use_training) \<and>
   ((default_format_openai_json_prompt lib self trained_state use_training examples kwargs \<noteq>
       default_format_openai_json_prompt lib self None use_training examples kwargs) =
      spec_training_condition trained_state use_training) \<and>
   ((default_format_anthropic_prompt self trained_state use_training examples kwargs \<noteq>
       default_format_anthropic_prompt self None use_training examples kwargs) =
      spec_training_condition trained_state use_training)"
proof -
  have c: "use_trained_examples trained_state use_training =
             spec_training_condition trained_state use_training"
    by (cases trained_state)
       (auto simp: use_trained_examples_def spec_training_condition_def)
  have n: "\<not> use_trained_examples None use_training"
    by (simp add: use_trained_examples_def)
  have ne: "trained_examples (the trained_state) \<noteq> []"
    if "spec_training_condition trained_state use_training"
    using that by (auto simp: spec_training_condition_def)
  have ev: "example_output_value y k = (case y of PDict d \<Rightarrow> dict_get d k | _ \<Rightarrow> y)" for y k
    by (cases y) (simp_all add: example_output_value_def)
  have eo: "openai_examples_text self exs =
      concat (map (\<lambda>(example_X, example_y).
                          nl @ ''---'' @ nl @ nl @
                          concat (map (\<lambda>(input_name, input_field).
                                         format_prompt_value input_field
                                           (dict_get example_X input_name) ''openai'' @ nl)
                                    (input_variables self)) @
                          concat (map (\<lambda>(output_name, output_field).
                                         format_prompt_value output_field
                                           (case example_y of
                                              PDict d \<Rightarrow> dict_get d output_name
                                            | _ \<Rightarrow> example_y) ''openai'' @ nl)
                                    (output_variables self))) exs)" for exs
    by (induction exs)
       (simp_all add: openai_examples_text_def openai_example_text_def ev
          case_prod_unfold)
  have ej: "json_examples_text lib self exs =
      concat (map (\<lambda>(example_X, example_y).
                           json_dumps lib
                             (PDict
                                [(''input'',
                                    PDict (fold (\<lambda>(input_name, input_field).
                                                   fold (\<lambda>(k, v). AList.update k v)
                                                     (format_prompt_value_json input_field
                                                        (dict_get example_X input_name)
                                                        ''openai_json''))
                                             (input_variables self) [])),
                                 (''output'',
                                    PDict (fold (\<lambda>(output_name, output_field).
                                                   fold (\<lambda>(k, v). AList.update k v)
                                                     (format_prompt_value_json output_field
                                                        (case example_y of
                                                           PDict d \<Rightarrow> dict_get d output_name
                                                         | _ \<Rightarrow> example_y)
                                                        ''openai_json''))
                                             (output_variables self) []))]) @ nl) exs)" for exs
    by (simp add: json_examples_text_def json_example_dict_def ev
        dict_update_def case_prod_unfold)
  have ea: "map (anthropic_example_message self) exs =
      map (\<lambda>(example_X, example_y).
                  HumanMessage
                    (''<example>'' @ nl @ ''<input>'' @ nl @
                     py_join nl (map (\<lambda>(input_name, input_field).
                                        format_prompt_value input_field
                                          (dict_get example_X input_name) ''anthropic'')
                                   (input_variables self)) @
                     nl @ ''</input>'' @ nl @ ''<output>'' @ nl @
                     py_join nl (map (\<lambda>(output_name, output_field).
                                        format_prompt_value output_field
                                          (case example_y of
                                             PDict d \<Rightarrow> dict_get d output_name
                                           | _ \<Rightarrow> example_y) ''anthropic'')
                                   (output_variables self)) @
                     nl @ ''</output>'' @ nl @ ''</example>'')) exs" for exs
    by (simp add: anthropic_example_message_def ev case_prod_unfold)
  have no: "openai_examples_text self exs \<noteq> []" if "exs \<noteq> []" for exs
    using that
    by (cases exs) (auto simp: openai_examples_text_def openai_example_text_def nl_def)
  have po: "\<exists>before after.
      default_format_openai_prompt self trained_state use_training examples kwargs =
        before @ openai_examples_text self (trained_examples (the trained_state)) @ after \<and>
      default_format_openai_prompt self None use_training examples kwargs = before @ after"
    if u: "use_trained_examples trained_state use_training"
    by (rule exI [of _ "openai_head self @
          (if examples \<noteq> [] then openai_examples_text self examples else [])"],
        rule exI [of _ "openai_tail self kwargs"])
       (simp add: default_format_openai_prompt_def u n)
  have pj: "\<exists>before after.
      default_format_openai_json_prompt lib self trained_state use_training examples kwargs =
        before @ (nl @ ''Trained Examples:'' @ nl @
                  json_examples_text lib self (trained_examples (the trained_state))) @ after \<and>
      default_format_openai_json_prompt lib self None use_training examples kwargs =
        before @ after"
    if u: "use_trained_examples trained_state use_training"
    by (rule exI [of _ "json_head lib self @
          (if examples \<noteq> [] then nl @ ''Examples:'' @ nl @ json_examples_text lib self examples
           else [])"],
        rule exI [of _ "json_tail lib self kwargs"])
       (simp add: default_format_openai_json_prompt_def u n)
  have pa: "\<exists>before after.
      default_format_anthropic_prompt self trained_state use_training examples kwargs =
        before @ map (anthropic_example_message self) (trained_examples (the trained_state)) @
        after \<and>
      default_format_anthropic_prompt self None use_training examples kwargs = before @ after"
    if u: "use_trained_examples trained_state use_training"
    by (rule exI [of _ "anthropic_head self @
          (if examples \<noteq> [] then map (anthropic_example_message self) examples else [])"],
        rule exI [of _ "anthropic_tail self kwargs"])
       (simp add: default_format_anthropic_prompt_def u n)
  have qo: "default_format_openai_prompt self trained_state use_training examples kwargs =
        default_format_openai_prompt self None use_training examples kwargs"
    if "\<not> use_trained_examples trained_state use_training"
    using that by (simp add: default_format_openai_prompt_def n)
  have qj: "default_format_openai_json_prompt lib self trained_state use_training examples kwargs =
        default_format_openai_json_prompt lib self None use_training examples kwargs"
    if "\<not> use_trained_examples trained_state use_training"
    using that by (simp add: default_format_openai_json_prompt_def n)
  have qa: "default_format_anthropic_prompt self trained_state use_training examples kwargs =
        default_format_anthropic_prompt self None use_training examples kwargs"
    if "\<not> use_trained_examples trained_state use_training"
    using that by (simp add: default_format_anthropic_prompt_def n)
  have do: "default_format_openai_prompt self trained_state use_training examples kwargs \<noteq>
        default_format_openai_prompt self None use_training examples kwargs"
    if s: "spec_training_condition trained_state use_training"
  proof -
    from po s c obtain before after where
      "default_format_openai_prompt self trained_state use_training examples kwargs =
        before @ openai_examples_text self (trained_examples (the trained_state)) @ after"
      "default_format_openai_prompt self None use_training examples kwargs = before @ after"
      by auto
    with no [OF ne [OF s]] show ?thesis by simp
  qed
  have dj: "default_format_openai_json_prompt lib self trained_state use_training examples kwargs \<noteq>
        default_format_openai_json_prompt lib self None use_training examples kwargs"
    if s: "spec_training_condition trained_state use_training"
  proof -
    from pj s c obtain before after where
      "default_format_openai_json_prompt lib self trained_state use_training examples kwargs =
        before @ (nl @ ''Trained Examples:'' @ nl @
                  json_examples_text lib self (trained_examples (the trained_state))) @ after"
      "default_format_openai_json_prompt lib self None use_training examples kwargs =
        before @ after"
      by auto
    then show ?thesis by (simp add: nl_def)
  qed
  have da: "default_format_anthropic_prompt self trained_state use_training examples kwargs \<noteq>
        default_format_anthropic_prompt self None use_training examples kwargs"
    if s: "spec_training_condition trained_state use_training"
  proof -
    from pa s c obtain before after where
      "default_format_anthropic_prompt self trained_state use_training examples kwargs =
        before @ map (anthropic_example_message self) (trained_examples (the trained_state)) @
        after"
      "default_format_anthropic_prompt self None use_training examples kwargs = before @ after"
      by auto
    with ne [OF s] show ?thesis by simp
  qed
  show ?thesis
  proof (intro conjI impI)
    assume s: "spec_training_condition trained_state use_training"
    with c have u: "use_trained_examples trained_state use_training" by simp
    from po [OF u] show "\<exists>before after.
         default_format_openai_prompt self trained_state use_training examples kwargs =
           before @
           concat (map (\<lambda>(example_X, example_y).
                          nl @ ''---'' @ nl @ nl @
                          concat (map (\<lambda>(input_name, input_field).
                                         format_prompt_value input_field
                                           (dict_get example_X input_name) ''openai'' @ nl)
                                    (input_variables self)) @
                          concat (map (\<lambda>(output_name, output_field).
                                         format_prompt_value output_field
                                           (case example_y of
                                              PDict d \<Rightarrow> dict_get d output_name
                                            | _ \<Rightarrow> example_y) ''openai'' @ nl)
                                    (output_variables self)))
                     (trained_examples (the trained_state))) @
           after \<and>
         default_format_openai_prompt self None use_training examples kwargs = before @ after"
      unfolding eo .
    from pj [OF u] show "\<exists>before after.
         default_format_openai_json_prompt lib self trained_state use_training examples kwargs =
           before @
           (nl @ ''Trained Examples:'' @ nl @
            concat (map (\<lambda>(example_X, example_y).
                           json_dumps lib
                             (PDict
                                [(''input'',
                                    PDict (fold (\<lambda>(input_name, input_field).
                                                   fold (\<lambda>(k, v). AList.update k v)
                                                     (format_prompt_value_json input_field
                                                        (dict_get example_X input_name)
                                                        ''openai_json''))
                                             (input_variables self) [])),
                                 (''output'',
                                    PDict (fold (\<lambda>(output_name, output_field).
                                                   fold (\<lambda>(k, v). AList.update k v)
                                                     (format_prompt_value_json output_field
                                                        (case example_y of
                                                           PDict d \<Rightarrow> dict_get d output_name
                                                         | _ \<Rightarrow> example_y)
                                                        ''openai_json''))
                                             (output_variables self) []))]) @ nl)
                      (trained_examples (the trained_state)))) @
           after \<and>
         default_format_openai_json_prompt lib self None use_training examples kwargs =
           before @ after"
      unfolding ej .
    from pa [OF u] show "\<exists>before after.
         default_format_anthropic_prompt self trained_state use_training examples kwargs =
           before @
           map (\<lambda>(example_X, example_y).
                  HumanMessage
                    (''<example>'' @ nl @ ''<input>'' @ nl @
                     py_join nl (map (\<lambda>(input_name, input_field).
                                        format_prompt_value input_field
                                          (dict_get example_X input_name) ''anthropic'')
                                   (input_variables self)) @
                     nl @ ''</input>'' @ nl @ ''<output>'' @ nl @
                     py_join nl (map (\<lambda>(output_name, output_field).
                                        format_prompt_value output_field
                                          (case example_y of
                                             PDict d \<Rightarrow> dict_get d output_name
                                           | _ \<Rightarrow> example_y) ''anthropic'')
                                   (output_variables self)) @
                     nl @ ''</output>'' @ nl @ ''</example>''))
             (trained_examples (the trained_state)) @
           after \<and>
         default_format_anthropic_prompt self None use_training examples kwargs =
           before @ after"
      unfolding ea .
  next
    assume "\<not> spec_training_condition trained_state use_training"
    with c have u: "\<not> use_trained_examples trained_state use_training" by simp
    from qo [OF u] show "default_format_openai_prompt self trained_state use_training examples kwargs =
        default_format_openai_prompt self None use_training examples kwargs" .
    from qj [OF u] show "default_format_openai_json_prompt lib self trained_state use_training examples kwargs =
        default_format_openai_json_prompt lib self None use_training examples kwargs" .
    from qa [OF u] show "default_format_anthropic_prompt self trained_state use_training examples kwargs =
        default_format_anthropic_prompt self None use_training examples kwargs" .
  next
    show "(default_format_openai_prompt self trained_state use_training examples kwargs \<noteq>
       default_format_openai_prompt self None use_training examples kwargs) =
      spec_training_condition trained_state use_training"
      using do qo c by blast
    show "(default_format_openai_json_prompt lib self trained_state use_training examples kwargs \<noteq>
       default_format_openai_json_prompt lib self None use_training examples kwargs) =
      spec_training_condition trained_state use_training"
      using dj qj c by blast
    show "(default_format_anthropic_prompt self trained_state use_training examples kwargs \<noteq>
       default_format_anthropic_prompt self None use_training examples kwargs) =
      spec_training_condition trained_state use_training"
      using da qa c by blast
  qed
qed

theorem trained_examples_gated_witness:
  "spec_training_condition (Some trained_review) (PBool True) \<and>
   \<not> spec_training_condition (Some trained_review) (PBool False) \<and>
   \<not> spec_training_condition (Some \<lparr> trained_examples = [] \<rparr>) (PBool True) \<and>
   (\<exists>before after.
      default_format_openai_prompt sig_review (Some trained_review) (PBool True)
        (sig_examples sig_review) kwargs_review =
        before @
        (nl @ ''---'' @ nl @ nl @ ''Text: bbb'' @ nl @ ''Summary: b'' @ nl @
         ''Score: 2'' @ nl @ nl @ ''---'' @ nl @ nl @ ''Text: ccc'' @ nl @
         ''Summary: n/a'' @ nl @ ''Score: n/a'' @ nl) @
        after \<and>
      default_format_openai_prompt sig_review None (PBool True)
        (sig_examples sig_review) kwargs_review = before @ after) \<and>
   (\<exists>before after.
      default_format_openai_json_prompt sample_lib sig_review (Some trained_review) (PBool True)
        (sig_examples sig_review) kwargs_review =
        before @
        (nl @ ''Trained Examples:'' @ nl @
         ''{'' @ nl @ ''  '' @ dquote @ ''input'' @ dquote @ '': {'' @ nl @ ''    '' @
         dquote @ ''Text'' @ dquote @ '': '' @ dquote @ ''bbb'' @ dquote @ nl @
         ''  },'' @ nl @ ''  '' @ dquote @ ''output'' @ dquote @ '': {'' @ nl @
         ''    '' @ dquote @ ''Summary'' @ dquote @ '': '' @ dquote @ ''b'' @ dquote @
         '','' @ nl @ ''    '' @ dquote @ ''Score'' @ dquote @ '': '' @ dquote @
         ''2'' @ dquote @ nl @ ''  }'' @ nl @ ''}'' @ nl @ ''{'' @ nl @ ''  '' @
         dquote @ ''input'' @ dquote @ '': {'' @ nl @ ''    '' @ dquote @ ''Text'' @
         dquote @ '': '' @ dquote @ ''ccc'' @ dquote @ nl @ ''  },'' @ nl @ ''  '' @
         dquote @ ''output'' @ dquote @ '': {'' @ nl @ ''    '' @ dquote @
         ''Summary'' @ dquote @ '': '' @ dquote @ ''n/a'' @ dquote @ '','' @ nl @
         ''    '' @ dquote @ ''Score'' @ dquote @ '': '' @ dquote @ ''n/a'' @ dquote @
         nl @ ''  }'' @ nl @ ''}'' @ nl) @
        after \<and>
      default_format_openai_json_prompt sample_lib sig_review None (PBool True)
        (sig_examples sig_review) kwargs_review = before @ after) \<and>
   (\<exists>before after.
      default_format_anthropic_prompt sig_review (Some trained_review) (PBool True)
        (sig_examples sig_review) kwargs_review =
        before @
        [HumanMessage
           (''<example>'' @ nl @ ''<input>'' @ nl @ ''Text: bbb'' @ nl @ ''</input>'' @
            nl @ ''<output>'' @ nl @ ''Summary: b'' @ nl @ ''Score: 2'' @ nl @
            ''</output>'' @ nl @ ''</example>''),
         HumanMessage
           (''<example>'' @ nl @ ''<input>'' @ nl @ ''Text: ccc'' @ nl @ ''</input>'' @
            nl @ ''<output>'' @ nl @ ''Summary: n/a'' @ nl @ ''Score: n/a'' @ nl @
            ''</output>'' @ nl @ ''</example>'')] @
        after \<and>
      default_format_anthropic_prompt sig_review None (PBool True)
        (sig_examples sig_review) kwargs_review = before @ after) \<and>
   default_format_openai_prompt sig_review (Some trained_review) (PBool True)
     (sig_examples sig_review) kwargs_review \<noteq>
   default_format_openai_prompt sig_review None (PBool True)
     (sig_examples sig_review) kwargs_review \<and>
   default_format_openai_json_prompt sample_lib sig_review (Some trained_review) (PBool True)
     (sig_examples sig_review) kwargs_review \<noteq>
   default_format_openai_json_prompt sample_lib sig_review None (PBool True)
     (sig_examples sig_review) kwargs_review \<and>
   default_format_anthropic_prompt sig_review (Some trained_review) (PBool True)
     (sig_examples sig_review) kwargs_review \<noteq>
   default_format_anthropic_prompt sig_review None (PBool True)
     (sig_examples sig_review) kwargs_review \<and>
   default_format_openai_prompt sig_review (Some trained_review) (PBool False)
     (sig_examples sig_review) kwargs_review =
   default_format_openai_prompt sig_review None (PBool False)
     (sig_examples sig_review) kwargs_review \<and>
   default_format_openai_json_prompt sample_lib sig_review (Some trained_review) (PBool False)
     (sig_examples sig_review) kwargs_review =
   default_format_openai_json_prompt sample_lib sig_review None (PBool False)
     (sig_examples sig_review) kwargs_review \<and>
   default_format_anthropic_prompt sig_review (Some trained_review) (PBool False)
     (sig_examples sig_review) kwargs_review =
   default_format_anthropic_prompt sig_review None (PBool False)
     (sig_examples sig_review) kwargs_review \<and>
   default_format_openai_prompt sig_review (Some \<lparr> trained_examples = [] \<rparr>) (PBool True)
     (sig_examples sig_review) kwargs_review =
   default_format_openai_prompt sig_review None (PBool True)
     (sig_examples sig_review) kwargs_review"
proof -
  have t: "spec_training_condition (Some trained_review) (PBool True)"
    by (simp add: spec_training_condition_def trained_review_def)
  have f: "\<not> spec_training_condition (Some trained_review) (PBool False)"
    by (simp add: spec_training_condition_def)
  have e: "\<not> spec_training_condition (Some \<lparr> trained_examples = [] \<rparr>) (PBool True)"
    by (simp add: spec_training_condition_def)
  have iv: "input_variables sig_review = [(''text'', plain_field ''Text'' ''the text'')]"
    and ov: "output_variables sig_review =
      [(''summary'', plain_field ''Summary'' ''a summary''),
       (''score'', plain_field ''Score'' ''a score'')]"
    by (simp_all add: sig_review_def)
  have jd: "json_dumps sample_lib = sample_dumps 0"
    by (simp add: sample_lib_def)
  note T = trained_examples_gated [of "Some trained_review" "PBool True" sig_review
         "sig_examples sig_review" kwargs_review sample_lib]
  note F = trained_examples_gated [of "Some trained_review" "PBool False" sig_review
         "sig_examples sig_review" kwargs_review sample_lib]
  note E = trained_examples_gated [of "Some \<lparr> trained_examples = [] \<rparr>" "PBool True" sig_review
         "sig_examples sig_review" kwargs_review sample_lib]
  from T t have blocks: "(\<exists>before after.
      default_format_openai_prompt sig_review (Some trained_review) (PBool True)
        (sig_examples sig_review) kwargs_review =
        before @
        (nl @ ''---'' @ nl @ nl @ ''Text: bbb'' @ nl @ ''Summary: b'' @ nl @
         ''Score: 2'' @ nl @ nl @ ''---'' @ nl @ nl @ ''Text: ccc'' @ nl @
         ''Summary: n/a'' @ nl @ ''Score: n/a'' @ nl) @
        after \<and>
      default_format_openai_prompt sig_review None (PBool True)
        (sig_examples sig_review) kwargs_review = before @ after) \<and>
   (\<exists>before after.
      default_format_openai_json_prompt sample_lib sig_review (Some trained_review) (PBool True)
        (sig_examples sig_review) kwargs_review =
        before @
        (nl @ ''Trained Examples:'' @ nl @
         ''{'' @ nl @ ''  '' @ dquote @ ''input'' @ dquote @ '': {'' @ nl @ ''    '' @
         dquote @ ''Text'' @ dquote @ '': '' @ dquote @ ''bbb'' @ dquote @ nl @
         ''  },'' @ nl @ ''  '' @ dquote @ ''output'' @ dquote @ '': {'' @ nl @
         ''    '' @ dquote @ ''Summary'' @ dquote @ '': '' @ dquote @ ''b'' @ dquote @
         '','' @ nl @ ''    '' @ dquote @ ''Score'' @ dquote @ '': '' @ dquote @
         ''2'' @ dquote @ nl @ ''  }'' @ nl @ ''}'' @ nl @ ''{'' @ nl @ ''  '' @
         dquote @ ''input'' @ dquote @ '': {'' @ nl @ ''    '' @ dquote @ ''Text'' @
         dquote @ '': '' @ dquote @ ''ccc'' @ dquote @ nl @ ''  },'' @ nl @ ''  '' @
         dquote @ ''output'' @ dquote @ '': {'' @ nl @ ''    '' @ dquote @
         ''Summary'' @ dquote @ '': '' @ dquote @ ''n/a'' @ dquote @ '','' @ nl @
         ''    '' @ dquote @ ''Score'' @ dquote @ '': '' @ dquote @ ''n/a'' @ dquote @
         nl @ ''  }'' @ nl @ ''}'' @ nl) @
        after \<and>
      default_format_openai_json_prompt sample_lib sig_review None (PBool True)
        (sig_examples sig_review) kwargs_review = before @ after) \<and>
   (\<exists>before after.
      default_format_anthropic_prompt sig_review (Some trained_review) (PBool True)
        (sig_examples sig_review) kwargs_review =
        before @
        [HumanMessage
           (''<example>'' @ nl @ ''<input>'' @ nl @ ''Text: bbb'' @ nl @ ''</input>'' @
            nl @ ''<output>'' @ nl @ ''Summary: b'' @ nl @ ''Score: 2'' @ nl @
            ''</output>'' @ nl @ ''</example>''),
         HumanMessage
           (''<example>'' @ nl @ ''<input>'' @ nl @ ''Text: ccc'' @ nl @ ''</input>'' @
            nl @ ''<output>'' @ nl @ ''Summary: n/a'' @ nl @ ''Score: n/a'' @ nl @
            ''</output>'' @ nl @ ''</example>'')] @
        after \<and>
      default_format_anthropic_prompt sig_review None (PBool True)
        (sig_examples sig_review) kwargs_review = before @ after)"
    by (simp add: iv ov jd trained_review_def plain_field_def show_value_def dict_get_def
        dict_get_default_def)
  from T t F f E e blocks show ?thesis by simp
qed

end
